theory Spec2Isabelle
  imports Complex_Main "HOL-Library.Log_Nat"
begin

section \<open>JavaScript values\<close>

text \<open>
  \<^verbatim>\<open>server.js\<close> is untyped: a request body is whatever \<^verbatim>\<open>express.json()\<close> parsed, and the
  handlers apply \<^verbatim>\<open>!\<close>, \<^verbatim>\<open>||\<close>, \<^verbatim>\<open>===\<close>, \<^verbatim>\<open>*\<close>, \<^verbatim>\<open>/\<close>, \<^verbatim>\<open>Math.round\<close>, property reads and template
  literals to it. The values below are the ones JSON parsing can produce, together with
  \<^verbatim>\<open>undefined\<close> (the value of an absent property).

  A Number is an IEEE 754 binary64 value. \<open>Fin q\<close> is the finite value \<open>q\<close> other than
  negative zero (\<open>Fin 0\<close> is \<^verbatim>\<open>+0\<close>); \<open>NZero\<close> is \<^verbatim>\<open>-0\<close>.
\<close>

datatype jsnum = NaN | PInf | NInf | NZero | Fin rat

datatype jsval =
    JUndefined
  | JNull
  | JBool bool
  | JNum jsnum
  | JStr string
  | JArr "jsval list"
  | JObj "(string \<times> jsval) list"

text \<open>A thrown \<^verbatim>\<open>Error\<close> object; the handlers read only its \<^verbatim>\<open>message\<close>.\<close>

datatype jserror = Error (message: string)

text \<open>
  The two conversions between Numbers and Strings of the JavaScript engine
  (\<^verbatim>\<open>Number::toString\<close> and \<^verbatim>\<open>StringToNumber\<close>) are not part of \<^verbatim>\<open>server.js\<close>; the model
  takes them as parameters.
\<close>

record js_engine =
  NumberToString :: "jsnum \<Rightarrow> string"
  StringToNumber :: "string \<Rightarrow> jsnum"

subsection \<open>Binary64 arithmetic\<close>

definition pow2 :: "int \<Rightarrow> rat" where
  "pow2 e = (if 0 \<le> e then 2 ^ nat e else 1 / 2 ^ nat (- e))"

text \<open>For \<open>0 < q\<close>, the exponent \<open>e\<close> with \<open>2\<^sup>e \<le> q < 2\<^sup>e\<^sup>+\<^sup>1\<close>.\<close>

definition floor_log2 :: "rat \<Rightarrow> int" where
  "floor_log2 q = (if 1 \<le> q then bitlen \<lfloor>q\<rfloor> - 1 else - bitlen (\<lceil>1 / q\<rceil> - 1))"

definition round_half_even :: "rat \<Rightarrow> int" where
  "round_half_even q =
     (let f = \<lfloor>q\<rfloor>; r = q - of_int f
      in if r < 1 / 2 then f else if 1 / 2 < r then f + 1 else if even f then f else f + 1)"

text \<open>
  Round a positive rational to the nearest binary64 value, ties to even: 53 significant
  bits, the least exponent of a unit in the last place \<open>-1074\<close> (subnormals), overflow
  (\<open>None\<close>) from \<open>2\<^sup>1\<^sup>0\<^sup>2\<^sup>4\<close> on.
\<close>

definition round_binary64 :: "rat \<Rightarrow> rat option" where
  "round_binary64 a =
     (let e = floor_log2 a; ex = max (e - 52) (- 1074);
          v = of_int (round_half_even (a / pow2 ex)) * pow2 ex
      in if pow2 1024 \<le> v then None else Some v)"

definition fl :: "rat \<Rightarrow> jsnum" where
  "fl q =
     (if q = 0 then Fin 0
      else if 0 < q then (case round_binary64 q of None \<Rightarrow> PInf | Some v \<Rightarrow> Fin v)
      else (case round_binary64 (- q) of
              None \<Rightarrow> NInf
            | Some v \<Rightarrow> if v = 0 then NZero else Fin (- v)))"

fun is_zero :: "jsnum \<Rightarrow> bool" where
  "is_zero NZero = True"
| "is_zero (Fin q) = (q = 0)"
| "is_zero _ = False"

fun is_inf :: "jsnum \<Rightarrow> bool" where
  "is_inf PInf = True"
| "is_inf NInf = True"
| "is_inf _ = False"

fun negative :: "jsnum \<Rightarrow> bool" where
  "negative NInf = True"
| "negative NZero = True"
| "negative (Fin q) = (q < 0)"
| "negative _ = False"

fun val :: "jsnum \<Rightarrow> rat" where
  "val (Fin q) = q"
| "val _ = 0"

text \<open>\<^verbatim>\<open>x * y\<close> on Numbers (Number::multiply).\<close>

definition js_mul :: "jsnum \<Rightarrow> jsnum \<Rightarrow> jsnum" where
  "js_mul x y =
     (if x = NaN \<or> y = NaN then NaN
      else if (is_inf x \<and> is_zero y) \<or> (is_zero x \<and> is_inf y) then NaN
      else if is_inf x \<or> is_inf y then (if negative x = negative y then PInf else NInf)
      else if is_zero x \<or> is_zero y then (if negative x = negative y then Fin 0 else NZero)
      else fl (val x * val y))"

text \<open>\<^verbatim>\<open>x / y\<close> on Numbers (Number::divide).\<close>

definition js_div :: "jsnum \<Rightarrow> jsnum \<Rightarrow> jsnum" where
  "js_div x y =
     (if x = NaN \<or> y = NaN then NaN
      else if (is_inf x \<and> is_inf y) \<or> (is_zero x \<and> is_zero y) then NaN
      else if is_inf x \<or> is_zero y then (if negative x = negative y then PInf else NInf)
      else if is_inf y \<or> is_zero x then (if negative x = negative y then Fin 0 else NZero)
      else fl (val x / val y))"

text \<open>
  \<^verbatim>\<open>Math.round\<close>: the nearest integer, a tie going towards \<open>+\<infinity>\<close>; \<^verbatim>\<open>-0\<close> for an
  argument in \<open>[-0.5, 0)\<close>.
\<close>

fun Math_round :: "jsnum \<Rightarrow> jsnum" where
  "Math_round (Fin q) =
     (let n = \<lfloor>q + 1 / 2\<rfloor> in if n = 0 \<and> q < 0 then NZero else Fin (of_int n))"
| "Math_round x = x"

text \<open>\<^verbatim>\<open>Number.isInteger\<close>.\<close>

fun isInteger :: "jsval \<Rightarrow> bool" where
  "isInteger (JNum (Fin q)) = (of_int \<lfloor>q\<rfloor> = q)"
| "isInteger (JNum NZero) = True"
| "isInteger _ = False"

subsection \<open>Truthiness, property reads, conversions\<close>

text \<open>ToBoolean: \<^verbatim>\<open>undefined\<close>, \<^verbatim>\<open>null\<close>, \<^verbatim>\<open>false\<close>, \<^verbatim>\<open>0\<close>, \<^verbatim>\<open>-0\<close>, \<^verbatim>\<open>NaN\<close> and \<^verbatim>\<open>""\<close> are falsy.\<close>

fun truthy :: "jsval \<Rightarrow> bool" where
  "truthy JUndefined = False"
| "truthy JNull = False"
| "truthy (JBool b) = b"
| "truthy (JNum n) = (n \<noteq> NaN \<and> \<not> is_zero n)"
| "truthy (JStr s) = (s \<noteq> [])"
| "truthy (JArr _) = True"
| "truthy (JObj _) = True"

text \<open>\<^verbatim>\<open>a || b\<close> (both operands here are already values).\<close>

definition or_else :: "jsval \<Rightarrow> jsval \<Rightarrow> jsval" where
  "or_else a b = (if truthy a then a else b)"

definition quoted :: "string \<Rightarrow> string" where
  "quoted s = [CHR 0x27] @ s @ [CHR 0x27]"

definition bindE :: "jserror + 'a \<Rightarrow> ('a \<Rightarrow> jserror + 'b) \<Rightarrow> jserror + 'b" where
  "bindE m f = (case m of Inl e \<Rightarrow> Inl e | Inr x \<Rightarrow> f x)"

text \<open>
  \<^verbatim>\<open>v.k\<close> for the property names \<^verbatim>\<open>server.js\<close> reads (\<^verbatim>\<open>userId\<close>, \<^verbatim>\<open>amount\<close>, \<^verbatim>\<open>items\<close>, \<^verbatim>\<open>type\<close>,
  \<^verbatim>\<open>packageId\<close>, \<^verbatim>\<open>sessionId\<close>, \<^verbatim>\<open>timestamp\<close>, \<^verbatim>\<open>title\<close>, \<^verbatim>\<open>quantity\<close>, \<^verbatim>\<open>price\<close>, \<^verbatim>\<open>length\<close>): none of
  them is inherited from a prototype, so an object has it only as an own property, an
  array or a string has only \<^verbatim>\<open>length\<close>, and a read from \<^verbatim>\<open>undefined\<close> or \<^verbatim>\<open>null\<close> throws a
  TypeError (the message is V8's).
\<close>

definition own_property :: "(string \<times> jsval) list \<Rightarrow> string \<Rightarrow> jsval" where
  "own_property fs k = (case map_of fs k of None \<Rightarrow> JUndefined | Some v \<Rightarrow> v)"

fun property :: "jsval \<Rightarrow> string \<Rightarrow> jsval" where
  "property (JObj fs) k = own_property fs k"
| "property (JArr xs) k = (if k = ''length'' then JNum (Fin (of_nat (length xs))) else JUndefined)"
| "property (JStr s) k = (if k = ''length'' then JNum (Fin (of_nat (length s))) else JUndefined)"
| "property _ k = JUndefined"

fun getProp :: "jsval \<Rightarrow> string \<Rightarrow> jserror + jsval" where
  "getProp JUndefined k =
     Inl (Error (''Cannot read properties of undefined (reading '' @ quoted k @ '')''))"
| "getProp JNull k =
     Inl (Error (''Cannot read properties of null (reading '' @ quoted k @ '')''))"
| "getProp v k = Inr (property v k)"

text \<open>
  ToPrimitive on a parsed JSON value. An array is joined with commas (\<^verbatim>\<open>undefined\<close> and
  \<^verbatim>\<open>null\<close> elements as the empty string). An object is \<^verbatim>\<open>[object Object]\<close>, unless it has an
  own property \<^verbatim>\<open>toString\<close>: that one is not callable, \<^verbatim>\<open>valueOf\<close> does not return a
  primitive, and the conversion throws a TypeError.
\<close>

fun ToString :: "js_engine \<Rightarrow> jsval \<Rightarrow> jserror + string"
  and join :: "js_engine \<Rightarrow> jsval list \<Rightarrow> jserror + string" where
  "ToString E JUndefined = Inr ''undefined''"
| "ToString E JNull = Inr ''null''"
| "ToString E (JBool b) = Inr (if b then ''true'' else ''false'')"
| "ToString E (JNum n) = Inr (NumberToString E n)"
| "ToString E (JStr s) = Inr s"
| "ToString E (JArr xs) = join E xs"
| "ToString E (JObj fs) =
     (if map_of fs ''toString'' \<noteq> None
      then Inl (Error ''Cannot convert object to primitive value'')
      else Inr ''[object Object]'')"
| "join E [] = Inr []"
| "join E (x # xs) =
     (case (if x = JUndefined \<or> x = JNull then Inr [] else ToString E x) of
        Inl e \<Rightarrow> Inl e
      | Inr s \<Rightarrow>
          (if xs = [] then Inr s
           else (case join E xs of Inl e \<Rightarrow> Inl e | Inr r \<Rightarrow> Inr (s @ '','' @ r))))"

fun ToNumber :: "js_engine \<Rightarrow> jsval \<Rightarrow> jserror + jsnum" where
  "ToNumber E JUndefined = Inr NaN"
| "ToNumber E JNull = Inr (Fin 0)"
| "ToNumber E (JBool b) = Inr (if b then Fin 1 else Fin 0)"
| "ToNumber E (JNum n) = Inr n"
| "ToNumber E (JStr s) = Inr (StringToNumber E s)"
| "ToNumber E v = bindE (ToString E v) (\<lambda>s. Inr (StringToNumber E s))"

text \<open>A template literal: its parts are converted and concatenated from left to right.\<close>

datatype part = Lit string | Sub jsval

fun template :: "js_engine \<Rightarrow> part list \<Rightarrow> jserror + string" where
  "template E [] = Inr []"
| "template E (Lit s # ps) = bindE (template E ps) (\<lambda>r. Inr (s @ r))"
| "template E (Sub v # ps) =
     bindE (ToString E v) (\<lambda>s. bindE (template E ps) (\<lambda>r. Inr (s @ r)))"

text \<open>\<^verbatim>\<open>String.prototype.includes\<close>.\<close>

fun str_includes :: "string \<Rightarrow> string \<Rightarrow> bool" where
  "str_includes [] p = (p = [])"
| "str_includes (c # cs) p = (take (length p) (c # cs) = p \<or> str_includes cs p)"

text \<open>
  \<^verbatim>\<open>const { k, ... } = v\<close>: destructuring \<^verbatim>\<open>undefined\<close> or \<^verbatim>\<open>null\<close> throws a TypeError (V8's
  message), anything else is a property read.
\<close>

definition destructure :: "string \<Rightarrow> jsval \<Rightarrow> string \<Rightarrow> jserror + jsval" where
  "destructure src v k =
     (if v = JUndefined \<or> v = JNull
      then Inl (Error (''Cannot destructure property '' @ quoted k @ '' of '' @ quoted src
                       @ '' as it is '' @ (if v = JNull then ''null'' else ''undefined'') @ ''.''))
      else getProp v k)"

fun Array_isArray :: "jsval \<Rightarrow> bool" where
  "Array_isArray (JArr xs) = True"
| "Array_isArray _ = False"

fun elements :: "jsval \<Rightarrow> jsval list" where
  "elements (JArr xs) = xs"
| "elements _ = []"

text \<open>\<^verbatim>\<open>Array.prototype.map\<close> with a callback that may throw: the first throw ends it.\<close>

fun mapE :: "('a \<Rightarrow> jserror + 'b) \<Rightarrow> 'a list \<Rightarrow> jserror + 'b list" where
  "mapE f [] = Inr []"
| "mapE f (x # xs) = bindE (f x) (\<lambda>y. bindE (mapE f xs) (\<lambda>ys. Inr (y # ys)))"

section \<open>The server\<close>

text \<open>
  What a handler sees of a request: \<^verbatim>\<open>req.method\<close>, \<^verbatim>\<open>req.url\<close>, \<^verbatim>\<open>req.headers.origin\<close>
  (absent or a string) and \<^verbatim>\<open>req.body\<close> as left by \<^verbatim>\<open>express.json()\<close>. A response is the
  status set by \<^verbatim>\<open>res.status\<close> (200 when it is not called) and the value handed to
  \<^verbatim>\<open>res.json\<close>. Logging is left out.
\<close>

record request =
  req_method :: string
  url :: string
  origin :: "string option"
  body :: jsval

record response =
  status :: nat
  json :: jsval

text \<open>
  The payment processor. A checkout session is the object the Stripe client resolves
  with; the handlers read five of its properties. A rejected call throws an \<^verbatim>\<open>Error\<close>.
\<close>

record session =
  session_id :: jsval
  payment_status :: jsval
  amount_total :: jsval
  customer :: jsval
  metadata :: jsval

record stripe_client =
  sessions_create :: "jsval \<Rightarrow> jserror + session"
  sessions_retrieve :: "jsval \<Rightarrow> jserror + session"

datatype stripe_call = Create jsval | Retrieve jsval

text \<open>What handling one request does: the calls made to the processor, and the response.\<close>

record outcome =
  calls :: "stripe_call list"
  response :: response

text \<open>
  The \<^verbatim>\<open>catch\<close> block shared by the three POST handlers, with its default message:
  \<^verbatim>\<open>res.status(500).json({ error: error.message || dflt, success: false })\<close>.
\<close>

definition error_response :: "string \<Rightarrow> jserror \<Rightarrow> response" where
  "error_response dflt error =
     \<lparr>status = 500,
      json = JObj [(''error'', or_else (JStr (message error)) (JStr dflt)),
                   (''success'', JBool False)]\<rparr>"

definition try_catch :: "string \<Rightarrow> stripe_call list \<times> (jserror + response) \<Rightarrow> outcome" where
  "try_catch dflt r =
     \<lparr>calls = fst r,
      response = (case snd r of Inl error \<Rightarrow> error_response dflt error | Inr res \<Rightarrow> res)\<rparr>"

subsection \<open>GET /health\<close>

definition get_health :: "string \<Rightarrow> outcome" where
  "get_health toISOString =
     \<lparr>calls = [],
      response = \<lparr>status = 200,
                  json = JObj [(''status'', JStr ''healthy''),
                               (''timestamp'', JStr toISOString)]\<rparr>\<rparr>"

subsection \<open>POST /create-checkout-session\<close>

text \<open>The callback of \<^verbatim>\<open>items.map\<close> (lines 66-76).\<close>

definition lineItem :: "js_engine \<Rightarrow> jsval \<Rightarrow> jserror + jsval" where
  "lineItem E item =
     bindE (getProp item ''title'') (\<lambda>title.
     bindE (getProp item ''quantity'') (\<lambda>quantity.
     bindE (template E [Lit ''Quantity: '', Sub (or_else quantity (JNum (Fin 1)))])
       (\<lambda>description.
     bindE (getProp item ''price'') (\<lambda>price.
     bindE (ToNumber E (or_else price (JNum (Fin 0)))) (\<lambda>p.
     Inr (JObj
       [(''price_data'', JObj
          [(''currency'', JStr ''gbp''),
           (''product_data'', JObj
              [(''name'', or_else title (JStr ''Activity'')),
               (''description'', JStr description)]),
           (''unit_amount'', JNum (Math_round (js_mul p (Fin 100))))]),
        (''quantity'', or_else quantity (JNum (Fin 1)))]))))))"

text \<open>The two ways of building \<^verbatim>\<open>lineItems\<close> (lines 60-93).\<close>

definition lineItems :: "js_engine \<Rightarrow> jsval \<Rightarrow> jsval \<Rightarrow> jsval \<Rightarrow> jserror + jsval" where
  "lineItems E type items amount =
     (if type = JStr ''activity_upgrade'' \<and> Array_isArray items \<and> 0 < length (elements items)
      then bindE (mapE (lineItem E) (elements items)) (\<lambda>ls. Inr (JArr ls))
      else bindE (ToNumber E amount) (\<lambda>a.
        Inr (JArr
          [JObj
             [(''price_data'', JObj
                [(''currency'', JStr ''gbp''),
                 (''product_data'', JObj [(''name'', JStr ''Travel Package Booking'')]),
                 (''unit_amount'', JNum (Math_round (js_mul a (Fin 100))))]),
              (''quantity'', JNum (Fin 1))]])))"

text \<open>
  The handler up to the call of \<^verbatim>\<open>stripe.checkout.sessions.create\<close> (lines 45-127): it
  throws, or replies early, or has the argument of the call. \<open>now\<close> is what \<^verbatim>\<open>Date.now()\<close>
  returns. The block of lines 101-106 declares its own \<^verbatim>\<open>successUrl\<close> and \<^verbatim>\<open>cancelUrl\<close>, which
  end with the block.
\<close>

datatype action = Reply response | Call jsval

definition checkout_request :: "js_engine \<Rightarrow> nat \<Rightarrow> request \<Rightarrow> jserror + action" where
  "checkout_request E now req =
     bindE (destructure ''req.body'' (body req) ''userId'') (\<lambda>userId.
     bindE (destructure ''req.body'' (body req) ''amount'') (\<lambda>amount.
     bindE (destructure ''req.body'' (body req) ''items'') (\<lambda>items.
     bindE (destructure ''req.body'' (body req) ''type'') (\<lambda>type.
     bindE (destructure ''req.body'' (body req) ''packageId'') (\<lambda>packageId.
     if \<not> truthy userId
     then Inr (Reply \<lparr>status = 400, json = JObj [(''error'', JStr ''Missing userId'')]\<rparr>)
     else if \<not> truthy amount \<and> \<not> truthy items
     then Inr (Reply \<lparr>status = 400,
                      json = JObj [(''error'',
                                    JStr ''Missing payment details (amount or items)'')]\<rparr>)
     else
       let timestamp = JNum (Fin (of_nat now)) in
       bindE (lineItems E type items amount) (\<lambda>lineItems.
       bindE (template E
           [Lit ''https://kenyaonabudgetsafaris.co.uk/payment-successa.html?session_id={CHECKOUT_SESSION_ID}&userId='',
            Sub userId, Lit ''&timestamp='', Sub timestamp,
            Lit ''&type='', Sub (or_else type (JStr ''package''))]) (\<lambda>successUrl.
       bindE (template E
           [Lit ''https://kenyaonabudgetsafaris.co.uk/payment-cancelled.html?userId='',
            Sub userId, Lit ''&timestamp='', Sub timestamp]) (\<lambda>cancelUrl.
       let isLocal = (case origin req of
                        None \<Rightarrow> False
                      | Some h \<Rightarrow> h \<noteq> [] \<and>
                          (str_includes h ''localhost'' \<or> str_includes h ''127.0.0.1'')) in
       bindE (if isLocal
              then (let localOrigin =
                          or_else (case origin req of None \<Rightarrow> JUndefined | Some h \<Rightarrow> JStr h)
                                  (JStr ''http://localhost:5500'') in
                    bindE (template E
                        [Sub localOrigin,
                         Lit ''/payment-success.html?session_id={CHECKOUT_SESSION_ID}&userId='',
                         Sub userId, Lit ''&timestamp='', Sub timestamp,
                         Lit ''&type='', Sub (or_else type (JStr ''package''))])
                      (\<lambda>successUrl'.
                    bindE (template E
                        [Sub localOrigin, Lit ''/payment-cancelled.html?userId='',
                         Sub userId, Lit ''&timestamp='', Sub timestamp])
                      (\<lambda>cancelUrl'. Inr ())))
              else Inr ()) (\<lambda>_.
       bindE (if truthy items then getProp items ''length'' else Inr (JNum (Fin 1)))
         (\<lambda>itemCount.
       Inr (Call (JObj
         [(''payment_method_types'', JArr [JStr ''card'']),
          (''line_items'', lineItems),
          (''mode'', JStr ''payment''),
          (''success_url'', JStr successUrl),
          (''cancel_url'', JStr cancelUrl),
          (''client_reference_id'', userId),
          (''metadata'', JObj
             [(''userId'', userId),
              (''timestamp'', JStr (NumberToString E (Fin (of_nat now)))),
              (''packageId'', or_else packageId (JStr [])),
              (''type'', or_else type (JStr ''package'')),
              (''itemCount'', itemCount)])]))))))))))))"

text \<open>The \<^verbatim>\<open>try\<close> block: the calls made, and a throw or the response.\<close>

definition create_checkout_session_try ::
    "js_engine \<Rightarrow> stripe_client \<Rightarrow> nat \<Rightarrow> request \<Rightarrow> stripe_call list \<times> (jserror + response)" where
  "create_checkout_session_try E stripe now req =
     (case checkout_request E now req of
        Inl error \<Rightarrow> ([], Inl error)
      | Inr (Reply res) \<Rightarrow> ([], Inr res)
      | Inr (Call params) \<Rightarrow>
          (case sessions_create stripe params of
             Inl error \<Rightarrow> ([Create params], Inl error)
           | Inr session \<Rightarrow>
               ([Create params],
                Inr \<lparr>status = 200,
                     json = JObj [(''id'', session_id session),
                                  (''timestamp'', JNum (Fin (of_nat now))),
                                  (''success'', JBool True)]\<rparr>)))"

definition post_create_checkout_session ::
    "js_engine \<Rightarrow> stripe_client \<Rightarrow> nat \<Rightarrow> request \<Rightarrow> outcome" where
  "post_create_checkout_session E stripe now req =
     try_catch ''Error creating checkout session'' (create_checkout_session_try E stripe now req)"

subsection \<open>GET /create-checkout-session\<close>

definition get_create_checkout_session :: outcome where
  "get_create_checkout_session =
     \<lparr>calls = [],
      response = \<lparr>status = 405,
                  json = JObj [(''error'',
                                JStr ''GET method not allowed for this endpoint. Use POST instead.''),
                               (''success'', JBool False)]\<rparr>\<rparr>"

subsection \<open>POST /verify-payment\<close>

definition verify_payment_try ::
    "js_engine \<Rightarrow> stripe_client \<Rightarrow> request \<Rightarrow> stripe_call list \<times> (jserror + response)" where
  "verify_payment_try E stripe req =
     (case destructure ''req.body'' (body req) ''sessionId'' of
        Inl error \<Rightarrow> ([], Inl error)
      | Inr sessionId \<Rightarrow>
          if \<not> truthy sessionId
          then ([], Inr \<lparr>status = 400,
                         json = JObj [(''error'', JStr ''Session ID is required''),
                                      (''success'', JBool False)]\<rparr>)
          else
            (case sessions_retrieve stripe sessionId of
               Inl error \<Rightarrow> ([Retrieve sessionId], Inl error)
             | Inr session \<Rightarrow>
                 ([Retrieve sessionId],
                  if payment_status session = JStr ''paid''
                  then bindE (ToNumber E (amount_total session)) (\<lambda>a.
                    Inr \<lparr>status = 200,
                         json = JObj [(''paid'', JBool True),
                                      (''amount'', JNum (js_div a (Fin 100))),
                                      (''customerId'', customer session),
                                      (''metadata'', metadata session),
                                      (''success'', JBool True)]\<rparr>)
                  else
                    Inr \<lparr>status = 200,
                         json = JObj [(''paid'', JBool False),
                                      (''status'', payment_status session),
                                      (''metadata'', metadata session),
                                      (''success'', JBool True)]\<rparr>)))"

definition post_verify_payment :: "js_engine \<Rightarrow> stripe_client \<Rightarrow> request \<Rightarrow> outcome" where
  "post_verify_payment E stripe req =
     try_catch ''Error verifying payment'' (verify_payment_try E stripe req)"

subsection \<open>POST /handle-cancellation\<close>

definition handle_cancellation_try :: "request \<Rightarrow> stripe_call list \<times> (jserror + response)" where
  "handle_cancellation_try req =
     ([],
      bindE (destructure ''req.body'' (body req) ''userId'') (\<lambda>userId.
      bindE (destructure ''req.body'' (body req) ''timestamp'') (\<lambda>timestamp.
      if \<not> truthy userId
      then Inr \<lparr>status = 400,
                json = JObj [(''error'', JStr ''User ID is required''),
                             (''success'', JBool False)]\<rparr>
      else Inr \<lparr>status = 200,
                json = JObj [(''success'', JBool True),
                             (''message'', JStr ''Cancellation processed''),
                             (''userId'', userId),
                             (''timestamp'', timestamp)]\<rparr>)))"

definition post_handle_cancellation :: "request \<Rightarrow> outcome" where
  "post_handle_cancellation req =
     try_catch ''Error handling cancellation'' (handle_cancellation_try req)"

subsection \<open>The fallback and the router\<close>

definition not_found :: "request \<Rightarrow> outcome" where
  "not_found req =
     \<lparr>calls = [],
      response = \<lparr>status = 404,
                  json = JObj [(''error'',
                                JStr (''Route not found: '' @ req_method req @ '' '' @ url req)),
                               (''success'', JBool False)]\<rparr>\<rparr>"

text \<open>
  The routes in the order of their registration, for a request that has passed the
  \<^verbatim>\<open>cors\<close> and \<^verbatim>\<open>express.json\<close> middleware (a preflight OPTIONS request and a body that is
  not JSON are answered there and do not reach the routes). Whether a request path
  matches a route path is decided by Express and is a parameter here
  (\<open>matches route path\<close>); a route registered with \<^verbatim>\<open>app.get\<close> also serves HEAD.
  \<open>toISOString\<close> is what \<^verbatim>\<open>new Date().toISOString()\<close> returns.
\<close>

definition app ::
    "(string \<Rightarrow> string \<Rightarrow> bool) \<Rightarrow> js_engine \<Rightarrow> stripe_client \<Rightarrow> nat \<Rightarrow> string \<Rightarrow> request \<Rightarrow> outcome" where
  "app matches E stripe now toISOString req =
     (let get = (req_method req = ''GET'' \<or> req_method req = ''HEAD''); post = (req_method req = ''POST'')
      in if get \<and> matches ''/health'' (url req) then get_health toISOString
         else if post \<and> matches ''/create-checkout-session'' (url req)
           then post_create_checkout_session E stripe now req
         else if get \<and> matches ''/create-checkout-session'' (url req)
           then get_create_checkout_session
         else if post \<and> matches ''/verify-payment'' (url req)
           then post_verify_payment E stripe req
         else if post \<and> matches ''/handle-cancellation'' (url req)
           then post_handle_cancellation req
         else not_found req)"

section \<open>The request shapes of the specification\<close>

text \<open>
  The binary64 values: zero, and the rationals below \<open>2\<^sup>1\<^sup>0\<^sup>2\<^sup>4\<close> in magnitude that are a whole
  multiple of the unit in the last place of their binade (53 significant bits, least
  unit \<open>2\<^sup>-\<^sup>1\<^sup>0\<^sup>7\<^sup>4\<close>). These are the finite Numbers that \<^verbatim>\<open>JSON.parse\<close> can produce.
\<close>

definition is_binary64 :: "rat \<Rightarrow> bool" where
  "is_binary64 v =
     (v = 0 \<or>
      (let a = \<bar>v\<bar>; ex = max (floor_log2 a - 52) (- 1074)
       in a < pow2 1024 \<and> of_int \<lfloor>a / pow2 ex\<rfloor> = a / pow2 ex))"

text \<open>
  An item of a CheckoutRequest as the specification's data model has it: an optional
  title, an optional quantity (an integer) and an optional price (a finite number).
  A JSON value carries the item when it is an object whose \<^verbatim>\<open>title\<close>, \<^verbatim>\<open>quantity\<close> and \<^verbatim>\<open>price\<close>
  are those of the item (absent where the item has none; the price a binary64 value);
  the order of its keys and any other key it has do not matter.
\<close>

record item =
  title :: "string option"
  quantity :: "nat option"
  price :: "rat option"

definition has_item :: "jsval \<Rightarrow> item \<Rightarrow> bool" where
  "has_item x it =
     (case x of
        JObj fs \<Rightarrow>
          own_property fs ''title'' = (case title it of None \<Rightarrow> JUndefined | Some t \<Rightarrow> JStr t)
          \<and> own_property fs ''quantity'' =
              (case quantity it of None \<Rightarrow> JUndefined | Some n \<Rightarrow> JNum (Fin (of_nat n)))
          \<and> own_property fs ''price'' =
              (case price it of None \<Rightarrow> JUndefined | Some p \<Rightarrow> JNum (Fin p))
          \<and> (case price it of None \<Rightarrow> True | Some p \<Rightarrow> is_binary64 p)
      | _ \<Rightarrow> False)"

text \<open>
  The specification's conversion to minor units, \<open>round(price * 100)\<close>: the integer
  nearest to the product, a tie going up (\<open>round_half_up\<close>, the standard rule) or to the
  even neighbour (\<open>round_half_even\<close> above); the product is the exact one.
\<close>

definition round_half_up :: "rat \<Rightarrow> int" where
  "round_half_up x = \<lfloor>x + 1 / 2\<rfloor>"

definition minor_units :: "rat \<Rightarrow> int" where
  "minor_units p = round_half_up (p * 100)"

definition minor_units_even :: "rat \<Rightarrow> int" where
  "minor_units_even p = round_half_even (p * 100)"

text \<open>
  The conversion in binary64 arithmetic: the exact product is first rounded to the
  nearest binary64 value (ties to even), and that value to the nearest integer (ties
  up, and \<^verbatim>\<open>-0\<close> for a value in \<open>[-0.5, 0)\<close>); \<^verbatim>\<open>NaN\<close>, the infinities and \<^verbatim>\<open>-0\<close> are kept.
\<close>

definition binary64_minor_units :: "jsnum \<Rightarrow> jsnum" where
  "binary64_minor_units a =
     (case a of
        Fin p \<Rightarrow>
          (case fl (p * 100) of
             Fin x \<Rightarrow> if - (1 / 2) \<le> x \<and> x < 0 then NZero else Fin (of_int (round_half_up x))
           | y \<Rightarrow> y)
      | y \<Rightarrow> y)"

text \<open>
  The line item of an activity: the title (default \<^verbatim>\<open>Activity\<close>), a description with the
  quantity, the quantity (default 1), and the price (default 0) in minor units.
\<close>

definition item_title :: "item \<Rightarrow> string" where
  "item_title it = (case title it of None \<Rightarrow> ''Activity'' | Some t \<Rightarrow> if t = [] then ''Activity'' else t)"

definition item_quantity :: "item \<Rightarrow> nat" where
  "item_quantity it = (case quantity it of None \<Rightarrow> 1 | Some n \<Rightarrow> if n = 0 then 1 else n)"

definition item_price :: "item \<Rightarrow> rat" where
  "item_price it = (case price it of None \<Rightarrow> 0 | Some p \<Rightarrow> p)"

definition activity_line_item :: "js_engine \<Rightarrow> item \<Rightarrow> jsval" where
  "activity_line_item E it =
     JObj
       [(''price_data'', JObj
          [(''currency'', JStr ''gbp''),
           (''product_data'', JObj
              [(''name'', JStr (item_title it)),
               (''description'',
                JStr (''Quantity: '' @ NumberToString E (Fin (of_nat (item_quantity it)))))]),
           (''unit_amount'', JNum (binary64_minor_units (Fin (item_price it))))]),
        (''quantity'', JNum (Fin (of_nat (item_quantity it))))]"

definition package_line_item :: "jsnum \<Rightarrow> jsval" where
  "package_line_item a =
     JObj
       [(''price_data'', JObj
          [(''currency'', JStr ''gbp''),
           (''product_data'', JObj [(''name'', JStr ''Travel Package Booking'')]),
           (''unit_amount'', JNum (binary64_minor_units a))]),
        (''quantity'', JNum (Fin 1))]"

text \<open>
  The argument of the session-creation call as the specification lists it: card as the
  only payment method, the line items \<open>ls\<close>, one-time-payment mode, the two redirect URLs
  on the production domain with the userId \<open>u\<close>, the timestamp and the type \<open>t\<close> (both as
  strings), the userId as client reference, and the metadata (userId, timestamp as a
  string, packageId or the empty string, type or \<^verbatim>\<open>package\<close>, the number of items or 1).
\<close>

definition session_params :: "js_engine \<Rightarrow> nat \<Rightarrow> jsval \<Rightarrow> jsval \<Rightarrow> string \<Rightarrow> string \<Rightarrow> jsval" where
  "session_params E now b ls u t =
     JObj
       [(''payment_method_types'', JArr [JStr ''card'']),
        (''line_items'', ls),
        (''mode'', JStr ''payment''),
        (''success_url'', JStr
           (''https://kenyaonabudgetsafaris.co.uk/payment-successa.html?session_id={CHECKOUT_SESSION_ID}&userId=''
            @ u @ ''&timestamp='' @ NumberToString E (Fin (of_nat now)) @ ''&type='' @ t)),
        (''cancel_url'', JStr
           (''https://kenyaonabudgetsafaris.co.uk/payment-cancelled.html?userId=''
            @ u @ ''&timestamp='' @ NumberToString E (Fin (of_nat now)))),
        (''client_reference_id'', property b ''userId''),
        (''metadata'', JObj
           [(''userId'', property b ''userId''),
            (''timestamp'', JStr (NumberToString E (Fin (of_nat now)))),
            (''packageId'', or_else (property b ''packageId'') (JStr [])),
            (''type'', or_else (property b ''type'') (JStr ''package'')),
            (''itemCount'',
             if truthy (property b ''items'') then property (property b ''items'') ''length''
             else JNum (Fin 1))])]"

section \<open>Stand-ins for the examples\<close>

text \<open>
  An engine that prints the non-negative integers in decimal (the examples convert no
  other Number and no String), processors that accept or reject every call, and a router
  that matches a path exactly.
\<close>

fun digits :: "nat \<Rightarrow> string" where
  "digits n =
     (if n < 10 then [''0123456789'' ! n]
      else digits (n div 10) @ [''0123456789'' ! (n mod 10)])"

definition sample_engine :: js_engine where
  "sample_engine =
     \<lparr>NumberToString = (\<lambda>n. case n of
          Fin q \<Rightarrow> if 0 \<le> q \<and> of_int \<lfloor>q\<rfloor> = q then digits (nat \<lfloor>q\<rfloor>) else ''NaN''
        | _ \<Rightarrow> ''NaN''),
      StringToNumber = (\<lambda>s. NaN)\<rparr>"

definition paid_session :: session where
  "paid_session =
     \<lparr>session_id = JStr ''cs_test_a1'', payment_status = JStr ''paid'',
      amount_total = JNum (Fin 5000), customer = JStr ''cus_9'',
      metadata = JObj [(''userId'', JStr ''u1'')]\<rparr>"

definition unpaid_session :: session where
  "unpaid_session =
     \<lparr>session_id = JStr ''cs_test_a1'', payment_status = JStr ''unpaid'',
      amount_total = JNum (Fin 5000), customer = JNull,
      metadata = JObj [(''userId'', JStr ''u1'')]\<rparr>"

definition stripe_returning :: "session \<Rightarrow> stripe_client" where
  "stripe_returning s = \<lparr>sessions_create = (\<lambda>params. Inr s), sessions_retrieve = (\<lambda>sid. Inr s)\<rparr>"

definition stripe_rejecting :: "string \<Rightarrow> stripe_client" where
  "stripe_rejecting msg =
     \<lparr>sessions_create = (\<lambda>params. Inl (Error msg)),
      sessions_retrieve = (\<lambda>sid. Inl (Error msg))\<rparr>"

definition exact :: "string \<Rightarrow> string \<Rightarrow> bool" where
  "exact route path = (route = path)"

definition post :: "string \<Rightarrow> jsval \<Rightarrow> request" where
  "post path b = \<lparr>req_method = ''POST'', url = path, origin = None, body = b\<rparr>"

section \<open>Facts about the runtime\<close>

lemma bitlen_eq_SucI:
  assumes "2 ^ n \<le> x" "x < 2 ^ Suc n"
  shows "bitlen x = int (Suc n)"
proof (rule antisym)
  have "x < 2 ^ nat (int (Suc n))" using assms(2) by (simp only: nat_int)
  then show "bitlen x \<le> int (Suc n)" by (simp only: bitlen_le_iff_power) simp
  have "2 ^ (nat (int (Suc n)) - 1) \<le> x" using assms(1) by (simp only: nat_int diff_Suc_1)
  then show "int (Suc n) \<le> bitlen x" by (simp only: bitlen_ge_iff_power) simp
qed

lemma pow2_pos: "0 < pow2 e"
  by (simp add: pow2_def)

lemma pow2_neg: "pow2 (- int k) = 1 / 2 ^ k"
  by (simp add: pow2_def)

lemma pow2_neg_Suc: "pow2 (- int (Suc k) + 1) = 1 / 2 ^ k"
proof -
  have "- int (Suc k) + 1 = - int k" by simp
  then show ?thesis by (simp only: pow2_neg)
qed

lemma floor_log2_eqI:
  assumes lo: "pow2 e \<le> q" and hi: "q < pow2 (e + 1)"
  shows "floor_log2 q = e"
proof (cases "0 \<le> e")
  case True
  have "(1::rat) \<le> 2 ^ nat e" by simp
  also have "\<dots> \<le> q" using lo True by (simp add: pow2_def)
  finally have q1: "1 \<le> q" .
  have a: "(2::int) ^ nat e \<le> \<lfloor>q\<rfloor>"
    using lo True by (simp add: pow2_def le_floor_iff)
  have b: "\<lfloor>q\<rfloor> < (2::int) ^ nat (e + 1)"
    using hi True by (simp add: pow2_def floor_less_iff)
  have "bitlen \<lfloor>q\<rfloor> = int (Suc (nat e))"
    using a b True by (intro bitlen_eq_SucI) (simp_all add: nat_add_distrib)
  with q1 True show ?thesis by (simp add: floor_log2_def)
next
  case False
  define k where "k = nat (- e - 1)"
  have e: "e = - int (Suc k)" using False by (simp add: k_def)
  have qpos: "0 < q" using lo pow2_pos[of e] by simp
  have lo': "1 / 2 ^ Suc k \<le> q" using lo unfolding e pow2_neg .
  have hi': "q < 1 / 2 ^ k" using hi unfolding e pow2_neg_Suc .
  have "q < 1"
  proof -
    have "(1::rat) / 2 ^ k \<le> 1" by simp
    with hi' show ?thesis by (rule less_le_trans)
  qed
  have u: "1 / q \<le> 2 ^ Suc k"
    using lo' qpos by (simp add: field_simps)
  have l: "2 ^ k < 1 / q"
    using hi' qpos by (simp add: field_simps)
  have a: "\<lceil>1 / q\<rceil> \<le> 2 ^ Suc k"
    using u by (simp add: ceiling_le_iff)
  have b: "2 ^ k < \<lceil>1 / q\<rceil>"
    using l by (simp add: less_ceiling_iff)
  have "bitlen (\<lceil>1 / q\<rceil> - 1) = int (Suc k)"
    using a b by (intro bitlen_eq_SucI) simp_all
  with \<open>q < 1\<close> show ?thesis by (simp add: floor_log2_def e)
qed

lemma floor_rat_numeral:
  "\<lfloor>numeral a / numeral b :: rat\<rfloor> = numeral a div numeral b"
  by (metis floor_divide_of_int_eq of_int_numeral)

lemma round_binary64_eqI:
  assumes "pow2 e \<le> q" "q < pow2 (e + 1)" "ex = max (e - 52) (- 1074)"
    and "round_half_even (q / pow2 ex) = m"
  shows "round_binary64 q = (if pow2 1024 \<le> of_int m * pow2 ex then None else Some (of_int m * pow2 ex))"
  using assms floor_log2_eqI[of e q] by (simp add: round_binary64_def Let_def)

lemma fl_4999: "fl 4999 = Fin 4999"
  using round_binary64_eqI[of 12 4999 "-40" "4999 * 2 ^ 40"]
  by (simp add: fl_def pow2_def round_half_even_def)

lemma fl_4999_100: "fl (4999 / 100) = Fin (7035467042882847 / 140737488355328)"
  using round_binary64_eqI[of 5 "4999 / 100" "-47" "7035467042882847"]
  by (simp add: fl_def pow2_def round_half_even_def Let_def floor_rat_numeral)

lemma fl_12050: "fl 12050 = Fin 12050"
  using round_binary64_eqI[of 13 12050 "-39" "12050 * 2 ^ 39"]
  by (simp add: fl_def pow2_def round_half_even_def)

lemma fl_50: "fl 50 = Fin 50"
  using round_binary64_eqI[of 5 50 "-47" "50 * 2 ^ 47"]
  by (simp add: fl_def pow2_def round_half_even_def)

lemma fl_241_2: "fl (241 / 2) = Fin (241 / 2)"
  using round_binary64_eqI[of 6 "241 / 2" "-46" "241 * 2 ^ 45"]
  by (simp add: fl_def pow2_def round_half_even_def)

lemma fl_4999_product: "fl (175886676072071175 / 35184372088832) = Fin 4999"
  using round_binary64_eqI[of 12 "175886676072071175 / 35184372088832" "-40" "4999 * 2 ^ 40"]
  by (simp add: fl_def pow2_def round_half_even_def Let_def floor_rat_numeral)

lemma fl_2001_200: "fl (2001 / 200) = Fin (5632314283980227 / 562949953421312)"
  using round_binary64_eqI[of 3 "2001 / 200" "-49" "5632314283980227"]
  by (simp add: fl_def pow2_def round_half_even_def Let_def floor_rat_numeral)

lemma fl_2001_200_product:
  "fl (140807857099505675 / 140737488355328) = Fin (8800491068719105 / 8796093022208)"
  using round_binary64_eqI[of 9 "140807857099505675 / 140737488355328" "-43" "8800491068719105"]
  by (simp add: fl_def pow2_def round_half_even_def Let_def floor_rat_numeral)


lemma bindE_Inr [simp]: "bindE (Inr x) f = f x"
  by (simp add: bindE_def)

lemma bindE_Inl [simp]: "bindE (Inl e) f = Inl e"
  by (simp add: bindE_def)

lemma destructure_JObj [simp]: "destructure src (JObj fs) k = Inr (own_property fs k)"
  by (simp add: destructure_def)

lemma own_property_absent: "map_of fs k = None \<Longrightarrow> own_property fs k = JUndefined"
  by (simp add: own_property_def)

lemma getProp_truthy: "truthy v \<Longrightarrow> getProp v k = Inr (property v k)"
  by (cases v) simp_all

lemma try_catch_simps [simp]:
  "try_catch dflt (cs, Inr res) = \<lparr>calls = cs, response = res\<rparr>"
  "try_catch dflt (cs, Inl error) = \<lparr>calls = cs, response = error_response dflt error\<rparr>"
  by (simp_all add: try_catch_def)

lemma checkout_no_userId:
  "\<not> truthy (own_property fs ''userId'') \<Longrightarrow>
   checkout_request E now (req\<lparr>body := JObj fs\<rparr>) =
     Inr (Reply \<lparr>status = 400, json = JObj [(''error'', JStr ''Missing userId'')]\<rparr>)"
  by (simp add: checkout_request_def)

text \<open>
  The rounding of \<open>fl\<close>: its result is a binary64 value, and no binary64 value is nearer
  to the exact argument (\<open>fl_nearest\<close> below).
\<close>

lemma pow2_powi: "pow2 e = 2 powi e"
  by (simp add: pow2_def power_int_def inverse_eq_divide power_one_over)

lemma pow2_add: "pow2 (a + b) = pow2 a * pow2 b"
  by (simp add: pow2_powi power_int_add)

lemma pow2_mono: "a \<le> b \<Longrightarrow> pow2 a \<le> pow2 b"
  by (simp add: pow2_powi power_int_increasing)

lemma pow2_strict_mono: "a < b \<Longrightarrow> pow2 a < pow2 b"
  by (simp add: pow2_powi power_int_strict_increasing)

lemma pow2_nonneg_int: "0 \<le> e \<Longrightarrow> pow2 e = of_int (2 ^ nat e)"
  by (simp add: pow2_def)

lemma pow2_multiple:
  assumes "a \<le> b"
  shows "of_int k * pow2 b = of_int (k * 2 ^ nat (b - a)) * pow2 a"
proof -
  have "pow2 b = pow2 ((b - a) + a)" by simp
  also have "\<dots> = pow2 (b - a) * pow2 a" by (rule pow2_add)
  also have "pow2 (b - a) = of_int (2 ^ nat (b - a))"
    using assms by (simp add: pow2_nonneg_int)
  finally show ?thesis by simp
qed

lemma floor_log2_bounds:
  assumes "0 < q"
  shows "pow2 (floor_log2 q) \<le> q" and "q < pow2 (floor_log2 q + 1)"
proof -
  have "pow2 (floor_log2 q) \<le> q \<and> q < pow2 (floor_log2 q + 1)"
  proof (cases "1 \<le> q")
    case True
    define x where "x = \<lfloor>q\<rfloor>"
    have x: "1 \<le> x" using True by (simp add: x_def le_floor_iff)
    then have pos: "0 < x" by simp
    have k: "1 \<le> bitlen x"
      using pos bitlen_eq_zero_iff[of x] bitlen_nonneg[of x] by linarith
    from bitlen_bounds[OF pos]
    have lo: "2 ^ nat (bitlen x - 1) \<le> x" and hi: "x < 2 ^ nat (bitlen x)" by simp_all
    have e: "floor_log2 q = bitlen x - 1" using True by (simp add: floor_log2_def x_def)
    have "pow2 (bitlen x - 1) = of_int (2 ^ nat (bitlen x - 1))"
      using k by (simp add: pow2_nonneg_int)
    also have "\<dots> \<le> of_int x" using lo by (simp only: of_int_le_iff)
    also have "\<dots> \<le> q" using floor_correct[of q] by (simp add: x_def)
    finally have 1: "pow2 (floor_log2 q) \<le> q" by (simp add: e)
    have "q < of_int (x + 1)" using floor_correct[of q] by (simp add: x_def)
    also have "\<dots> \<le> of_int (2 ^ nat (bitlen x))"
      using hi by (simp only: of_int_le_iff)
    also have "\<dots> = pow2 (bitlen x)" using k by (simp add: pow2_nonneg_int)
    finally have 2: "q < pow2 (floor_log2 q + 1)" by (simp add: e)
    from 1 2 show ?thesis ..
  next
    case False
    define N where "N = \<lceil>1 / q\<rceil> - 1"
    have "1 < 1 / q" using assms False by (simp add: field_simps)
    then have N: "1 \<le> N" by (simp add: N_def less_ceiling_iff) 
    then have pos: "0 < N" by simp
    have k: "1 \<le> bitlen N"
      using pos bitlen_eq_zero_iff[of N] bitlen_nonneg[of N] by linarith
    from bitlen_bounds[OF pos]
    have lo: "2 ^ nat (bitlen N - 1) \<le> N" and hi: "N < 2 ^ nat (bitlen N)" by simp_all
    have e: "floor_log2 q = - bitlen N" using False by (simp add: floor_log2_def N_def)
    have "1 / q \<le> of_int (N + 1)" using ceiling_correct[of "1 / q"] by (simp add: N_def)
    also have "\<dots> \<le> of_int (2 ^ nat (bitlen N))"
      using hi by (simp only: of_int_le_iff)
    finally have "1 / q \<le> 2 ^ nat (bitlen N)" by simp
    then have "1 / 2 ^ nat (bitlen N) \<le> q"
      using assms by (simp add: field_simps)
    then have 1: "pow2 (floor_log2 q) \<le> q"
      using k by (simp add: e pow2_def)
    have "of_int (2 ^ nat (bitlen N - 1)) \<le> (of_int N :: rat)"
      using lo by (simp only: of_int_le_iff)
    also have "(of_int N :: rat) < 1 / q" using ceiling_correct[of "1 / q"] by (simp add: N_def)
    finally have "2 ^ nat (bitlen N - 1) < 1 / q" by simp
    then have "q < 1 / 2 ^ nat (bitlen N - 1)"
      using assms by (simp add: field_simps)
    moreover have "pow2 (- bitlen N + 1) = 1 / 2 ^ nat (bitlen N - 1)"
      using k by (cases "bitlen N = 1") (simp_all add: pow2_def)
    ultimately have 2: "q < pow2 (floor_log2 q + 1)" by (simp add: e)
    from 1 2 show ?thesis ..
  qed
  then show "pow2 (floor_log2 q) \<le> q" and "q < pow2 (floor_log2 q + 1)" by simp_all
qed

lemma round_half_even_cases:
  "round_half_even x = \<lfloor>x\<rfloor> \<and> x - of_int \<lfloor>x\<rfloor> \<le> 1 / 2
   \<or> round_half_even x = \<lfloor>x\<rfloor> + 1 \<and> 1 / 2 \<le> x - of_int \<lfloor>x\<rfloor>"
  by (auto simp: round_half_even_def Let_def)

lemma round_half_even_nearest:
  "\<bar>of_int (round_half_even x) - x\<bar> \<le> \<bar>of_int j - x\<bar>"
proof -
  have f: "of_int \<lfloor>x\<rfloor> \<le> x" "x < of_int \<lfloor>x\<rfloor> + 1"
    using floor_correct[of x] by simp_all
  consider "j \<le> \<lfloor>x\<rfloor>" | "\<lfloor>x\<rfloor> + 1 \<le> j" by linarith
  then show ?thesis
  proof cases
    case 1
    then have "(of_int j :: rat) \<le> of_int \<lfloor>x\<rfloor>" by (simp only: of_int_le_iff)
    with f round_half_even_cases[of x] show ?thesis by auto
  next
    case 2
    then have "(of_int (\<lfloor>x\<rfloor> + 1) :: rat) \<le> of_int j" by (simp only: of_int_le_iff)
    with f round_half_even_cases[of x] show ?thesis by auto
  qed
qed

lemma round_half_even_ge:
  assumes "of_int j \<le> x"
  shows "j \<le> round_half_even x"
proof -
  from assms have "j \<le> \<lfloor>x\<rfloor>" by (simp add: le_floor_iff)
  with round_half_even_cases[of x] show ?thesis by auto
qed

lemma round_half_even_le:
  assumes "x \<le> of_int j"
  shows "round_half_even x \<le> j"
proof (cases "x = of_int j")
  case True
  then show ?thesis by (simp add: round_half_even_def)
next
  case False
  with assms have "x < of_int j" by simp
  then have "\<lfloor>x\<rfloor> < j" by (simp add: floor_less_iff)
  with round_half_even_cases[of x] show ?thesis by auto
qed

lemma nearer_multiple:
  assumes u: "0 < u" and v: "v = of_int (round_half_even (q / u)) * u" and w: "w = of_int j * u"
  shows "\<bar>v - q\<bar> \<le> \<bar>w - q\<bar>"
proof -
  have "v - q = u * (of_int (round_half_even (q / u)) - q / u)"
    using u by (simp add: v field_simps)
  then have 1: "\<bar>v - q\<bar> = u * \<bar>of_int (round_half_even (q / u)) - q / u\<bar>"
    using u by (simp add: abs_mult)
  have "w - q = u * (of_int j - q / u)"
    using u by (simp add: w field_simps)
  then have 2: "\<bar>w - q\<bar> = u * \<bar>of_int j - q / u\<bar>"
    using u by (simp add: abs_mult)
  show ?thesis
    unfolding 1 2 using u round_half_even_nearest[of "q / u" j]
    by (simp add: mult_le_cancel_left_pos)
qed

lemma is_binary64_multiple:
  assumes "is_binary64 w" "w \<noteq> 0"
  shows "\<exists>k. \<bar>w\<bar> = of_int k * pow2 (max (floor_log2 \<bar>w\<bar> - 52) (- 1074))"
proof -
  let ?ex = "max (floor_log2 \<bar>w\<bar> - 52) (- 1074)"
  from assms obtain n where "\<bar>w\<bar> / pow2 ?ex = of_int n"
    by (auto simp: is_binary64_def Let_def)
  then have "\<bar>w\<bar> = of_int n * pow2 ?ex"
    using pow2_pos[of ?ex] by (simp add: field_simps)
  then show ?thesis ..
qed

lemma is_binary64_I:
  assumes "pow2 e \<le> v" "v < pow2 (e + 1)" "v < pow2 1024"
    and "v = of_int k * pow2 (max (e - 52) (- 1074))"
  shows "is_binary64 v"
proof -
  have pos: "0 < v" using assms(1) pow2_pos[of e] by simp
  have e: "floor_log2 v = e" using assms(1,2) by (rule floor_log2_eqI)
  have "v / pow2 (max (e - 52) (- 1074)) = of_int k"
    using pow2_pos[of "max (e - 52) (- 1074)"] by (simp add: assms(4))
  with pos e assms(3) show ?thesis
    by (simp add: is_binary64_def Let_def)
qed

lemma round_binary64_nearest:
  assumes q: "0 < q" and r: "round_binary64 q = Some v"
  shows "is_binary64 v" and "is_binary64 w \<Longrightarrow> \<bar>v - q\<bar> \<le> \<bar>w - q\<bar>"
proof -
  define e where "e = floor_log2 q"
  define ex where "ex = max (e - 52) (- 1074)"
  define u where "u = pow2 ex"
  define m where "m = round_half_even (q / u)"
  have u: "0 < u" by (simp add: u_def pow2_pos)
  have v: "v = of_int m * u" and fin: "v < pow2 1024"
    using r by (simp_all add: round_binary64_def Let_def e_def ex_def u_def m_def split: if_splits)
  have lo: "pow2 e \<le> q" and hi: "q < pow2 (e + 1)"
    using floor_log2_bounds[OF q] by (simp_all add: e_def)
  have m0: "0 \<le> m"
    unfolding m_def using q u by (intro round_half_even_ge) simp
  note near = nearer_multiple[OF u v[unfolded m_def]]
  show "\<bar>v - q\<bar> \<le> \<bar>w - q\<bar>" if w: "is_binary64 w"
  proof (cases "w = 0")
    case True
    then have "w = of_int 0 * u" by simp
    then show ?thesis by (rule near)
  next
    case False
    define ew where "ew = max (floor_log2 \<bar>w\<bar> - 52) (- 1074)"
    from is_binary64_multiple[OF w False] obtain k where k: "\<bar>w\<bar> = of_int k * pow2 ew"
      unfolding ew_def by blast
    show ?thesis
    proof (cases "ex \<le> ew")
      case True
      from k pow2_multiple[OF True, of k]
      have a: "\<bar>w\<bar> = of_int (k * 2 ^ nat (ew - ex)) * u" by (simp add: u_def)
      show ?thesis
      proof (cases "0 \<le> w")
        case True
        with a have "w = of_int (k * 2 ^ nat (ew - ex)) * u" by simp
        then show ?thesis by (rule near)
      next
        case False
        with a have "w = of_int (- (k * 2 ^ nat (ew - ex))) * u" by simp
        then show ?thesis by (rule near)
      qed
    next
      case False
      then have "ew < ex" by simp
      moreover have "- 1074 \<le> ew" by (simp add: ew_def)
      ultimately have ex: "ex = e - 52" and le: "- 1074 \<le> e - 52" and "ew < e - 52"
        by (simp_all add: ex_def)
      then have "floor_log2 \<bar>w\<bar> + 1 \<le> e" by (simp add: ew_def)
      then have "pow2 (floor_log2 \<bar>w\<bar> + 1) \<le> pow2 e" by (rule pow2_mono)
      moreover have "\<bar>w\<bar> < pow2 (floor_log2 \<bar>w\<bar> + 1)"
        using \<open>w \<noteq> 0\<close> by (intro floor_log2_bounds) simp
      ultimately have wB: "\<bar>w\<bar> < pow2 e" by simp
      have "ex \<le> e" by (simp add: ex)
      from pow2_multiple[OF this, of 1]
      have "pow2 e = of_int (1 * 2 ^ nat (e - ex)) * u" by (simp add: u_def)
      from near[OF this] have "\<bar>v - q\<bar> \<le> \<bar>pow2 e - q\<bar>" .
      also have "\<dots> = q - pow2 e" using lo by simp
      also have "\<dots> \<le> \<bar>w - q\<bar>" using wB by linarith
      finally show ?thesis .
    qed
  qed
  show "is_binary64 v"
  proof (cases "v = 0")
    case True
    then show ?thesis by (simp add: is_binary64_def)
  next
    case False
    with v m0 have m1: "1 \<le> m" by (cases "m = 0") simp_all
    show ?thesis
    proof (cases "- 1074 \<le> e")
      case False
      then have ex: "ex = - 1074" by (simp add: ex_def)
      from False have "e + 1 \<le> - 1074" by simp
      then have "pow2 (e + 1) \<le> pow2 (- 1074)" by (rule pow2_mono)
      with hi have "q < u" by (simp add: u_def ex)
      then have "q / u \<le> of_int 1" using u by (simp add: field_simps)
      then have "m \<le> 1" unfolding m_def by (rule round_half_even_le)
      with m1 have "m = 1" by simp
      then have vu: "v = pow2 (- 1074)" by (simp add: v u_def ex)
      show ?thesis
      proof (rule is_binary64_I[where e = "- 1074" and k = 1])
        show "pow2 (- 1074) \<le> v" by (simp add: vu)
        show "v < pow2 (- 1074 + 1)" unfolding vu by (rule pow2_strict_mono) simp
        show "v < pow2 1024" by (rule fin)
        show "v = of_int 1 * pow2 (max (- 1074 - 52) (- 1074))" by (simp add: vu)
      qed
    next
      case True
      then have exe: "ex \<le> e" by (simp add: ex_def)
      define j where "j = (2::int) ^ nat (e - ex)"
      from pow2_multiple[OF exe, of 1]
      have B: "pow2 e = of_int j * u" by (simp add: u_def j_def)
      have "pow2 1 = 2" by (simp add: pow2_def)
      moreover have "pow2 (e + 1) = pow2 1 * pow2 e"
        using pow2_add[of 1 e] by (simp add: add.commute)
      ultimately have B2: "pow2 (e + 1) = of_int (2 * j) * u" by (simp add: B)
      have "of_int j \<le> q / u" using lo u by (simp add: B field_simps)
      then have mj: "j \<le> m" unfolding m_def by (rule round_half_even_ge)
      have "q < of_int (2 * j) * u" using hi by (simp only: B2)
      then have "q / u \<le> of_int (2 * j)" using u by (simp add: field_simps)
      then have mj2: "m \<le> 2 * j" unfolding m_def by (rule round_half_even_le)
      have vlo: "pow2 e \<le> v"
        unfolding B v using mj u by (simp add: mult_le_cancel_right_pos)
      show ?thesis
      proof (cases "m = 2 * j")
        case False
        with mj2 have "m < 2 * j" by simp
        then have "(of_int m :: rat) < of_int (2 * j)" by (simp only: of_int_less_iff)
        then have vhi: "v < pow2 (e + 1)"
          unfolding B2 v using u by (simp add: mult_less_cancel_right_pos)
        show ?thesis
          by (rule is_binary64_I[OF vlo vhi fin, of m]) (simp add: v u_def ex_def)
      next
        case True
        then have vB: "v = pow2 (e + 1)" by (simp add: v B2)
        have le: "max (e + 1 - 52) (- 1074) \<le> e + 1" using \<open>- 1074 \<le> e\<close> by simp
        show ?thesis
        proof (rule is_binary64_I[where e = "e + 1" and k = "2 ^ nat (e + 1 - max (e + 1 - 52) (- 1074))"])
          show "pow2 (e + 1) \<le> v" by (simp add: vB)
          show "v < pow2 (e + 1 + 1)" unfolding vB by (rule pow2_strict_mono) simp
          show "v < pow2 1024" by (rule fin)
          show "v = of_int (2 ^ nat (e + 1 - max (e + 1 - 52) (- 1074)))
                  * pow2 (max (e + 1 - 52) (- 1074))"
            using pow2_multiple[OF le, of 1] by (simp add: vB)
        qed
      qed
    qed
  qed
qed

lemma is_binary64_minus: "is_binary64 (- v) = is_binary64 v"
  by (simp add: is_binary64_def)

lemma fl_nearest:
  assumes "fl q = Fin v"
  shows "is_binary64 v \<and> (\<forall>w. is_binary64 w \<longrightarrow> \<bar>v - q\<bar> \<le> \<bar>w - q\<bar>)"
proof -
  consider "q = 0" | "0 < q" | "q < 0" by linarith
  then show ?thesis
  proof cases
    case 1
    with assms show ?thesis by (simp add: fl_def is_binary64_def)
  next
    case 2
    with assms have "round_binary64 q = Some v"
      by (simp add: fl_def split: option.splits)
    from round_binary64_nearest[OF 2 this] show ?thesis by blast
  next
    case 3
    then have pos: "0 < - q" by simp
    from assms 3 obtain v' where r: "round_binary64 (- q) = Some v'" and v: "v = - v'"
      by (auto simp: fl_def split: option.splits if_splits)
    note n = round_binary64_nearest[OF pos r]
    have "\<bar>v - q\<bar> \<le> \<bar>w - q\<bar>" if "is_binary64 w" for w
    proof -
      from that have "is_binary64 (- w)" by (simp add: is_binary64_minus)
      from n(2)[OF this] show ?thesis by (simp add: v abs_minus_commute)
    qed
    with n(1) show ?thesis by (simp add: v is_binary64_minus)
  qed
qed

lemma fl_3_200: "fl (3 / 200) = Fin (1080863910568919 / 72057594037927936)"
  using round_binary64_eqI[of "-7" "3 / 200" "-59" "8646911284551352"]
  by (simp add: fl_def pow2_def round_half_even_def Let_def floor_rat_numeral)

lemma fl_3_200_product: "fl (27021597764222975 / 18014398509481984) = Fin (3 / 2)"
  using round_binary64_eqI[of 0 "27021597764222975 / 18014398509481984" "-52" "6755399441055744"]
  by (simp add: fl_def pow2_def round_half_even_def Let_def floor_rat_numeral)

lemma fl_203_200: "fl (203 / 200) = Fin (4571153621781053 / 4503599627370496)"
  using round_binary64_eqI[of 0 "203 / 200" "-52" "4571153621781053"]
  by (simp add: fl_def pow2_def round_half_even_def Let_def floor_rat_numeral)

lemma fl_203_200_product:
  "fl (114278840544526325 / 1125899906842624) = Fin (7142427534032895 / 70368744177664)"
  using round_binary64_eqI[of 6 "114278840544526325 / 1125899906842624" "-46" "7142427534032895"]
  by (simp add: fl_def pow2_def round_half_even_def Let_def floor_rat_numeral)

lemma units_49_99:
  "binary64_minor_units (Fin (7035467042882847 / 140737488355328)) = Fin 4999"
  by (simp add: binary64_minor_units_def fl_4999_product round_half_up_def floor_rat_numeral)

lemma units_120_5: "binary64_minor_units (Fin (241 / 2)) = Fin 12050"
  by (simp add: binary64_minor_units_def fl_12050 round_half_up_def floor_rat_numeral)

lemma units_0_015:
  "binary64_minor_units (Fin (1080863910568919 / 72057594037927936)) = Fin 2"
  by (simp add: binary64_minor_units_def fl_3_200_product round_half_up_def floor_rat_numeral)

lemma units_1_015:
  "binary64_minor_units (Fin (4571153621781053 / 4503599627370496)) = Fin 101"
  by (simp add: binary64_minor_units_def fl_203_200_product round_half_up_def floor_rat_numeral)

lemma exact_0_015:
  "minor_units (1080863910568919 / 72057594037927936) = 1"
  "minor_units_even (1080863910568919 / 72057594037927936) = 1"
  by (simp_all add: minor_units_def minor_units_even_def round_half_up_def round_half_even_def
      Let_def floor_rat_numeral)

lemma exact_1_015:
  "minor_units (203 / 200) = 102"
  "minor_units_even (203 / 200) = 102"
  by (simp_all add: minor_units_def minor_units_even_def round_half_up_def round_half_even_def
      Let_def floor_rat_numeral)

lemma fractional_penny:
  "binary64_minor_units (fl (2001 / 200)) = Fin 1001"
  by (simp add: binary64_minor_units_def fl_2001_200 fl_2001_200_product round_half_up_def
      floor_rat_numeral)

lemma is_binary64_examples:
  "is_binary64 (7035467042882847 / 140737488355328)"
  "is_binary64 (1080863910568919 / 72057594037927936)"
  "is_binary64 (4571153621781053 / 4503599627370496)"
  using fl_nearest[OF fl_4999_100] fl_nearest[OF fl_3_200] fl_nearest[OF fl_203_200]
  by blast+

section \<open>Facts about the handlers\<close>

lemma Math_round_product:
  "Math_round (js_mul a (Fin 100)) = binary64_minor_units a"
proof (cases a)
  case (Fin p)
  show ?thesis
  proof (cases "p = 0")
    case True
    with Fin show ?thesis
      by (simp add: js_mul_def binary64_minor_units_def fl_def round_half_up_def)
  next
    case False
    have "\<lfloor>x + 1 / 2\<rfloor> = 0 \<and> x < 0 \<longleftrightarrow> - (1 / 2) \<le> x \<and> x < 0" for x :: rat
      by (auto simp: floor_eq_iff)
    with Fin False show ?thesis
      by (cases "fl (p * 100)")
         (simp_all add: js_mul_def binary64_minor_units_def round_half_up_def Let_def)
  qed
qed (simp_all add: js_mul_def binary64_minor_units_def)

lemma lineItem_has_item:
  assumes "has_item x it"
  shows "lineItem E x = Inr (activity_line_item E it)"
proof -
  from assms obtain fs where x: "x = JObj fs"
    by (cases x) (simp_all add: has_item_def)
  with assms show ?thesis
    by (cases "title it"; cases "quantity it"; cases "price it")
       (simp_all add: has_item_def lineItem_def activity_line_item_def or_else_def
          item_title_def item_quantity_def item_price_def Math_round_product)
qed

lemma mapE_lineItem:
  "list_all2 has_item xs its \<Longrightarrow> mapE (lineItem E) xs = Inr (map (activity_line_item E) its)"
  by (induction xs its rule: list_all2_induct) (simp_all add: lineItem_has_item)

text \<open>
  The handlers test their identifier with \<^verbatim>\<open>!\<close>: an identifier that is there but falsy (the
  empty string, \<^verbatim>\<open>0\<close>, \<^verbatim>\<open>false\<close>, \<^verbatim>\<open>null\<close>) is treated as a missing one.
\<close>

lemma falsy_identifier_rejected:
  "(\<not> truthy (own_property fs ''userId'') \<longrightarrow>
      post_create_checkout_session E stripe now (req\<lparr>body := JObj fs\<rparr>) =
        \<lparr>calls = [],
         response = \<lparr>status = 400, json = JObj [(''error'', JStr ''Missing userId'')]\<rparr>\<rparr>
      \<and> post_handle_cancellation (req\<lparr>body := JObj fs\<rparr>) =
        \<lparr>calls = [],
         response = \<lparr>status = 400,
                     json = JObj [(''error'', JStr ''User ID is required''),
                                  (''success'', JBool False)]\<rparr>\<rparr>)
   \<and> (\<not> truthy (own_property fs ''sessionId'') \<longrightarrow>
      post_verify_payment E stripe (req\<lparr>body := JObj fs\<rparr>) =
        \<lparr>calls = [],
         response = \<lparr>status = 400,
                     json = JObj [(''error'', JStr ''Session ID is required''),
                                  (''success'', JBool False)]\<rparr>\<rparr>)"
  by (simp add: post_create_checkout_session_def create_checkout_session_try_def
      checkout_no_userId post_handle_cancellation_def
      handle_cancellation_try_def post_verify_payment_def verify_payment_try_def)

lemma ToString_JStr: "ToString E (JStr s) = Inr s" by simp

lemma template_userId_type:
  assumes "ToString E userId = Inr u" "ToString E ty = Inr t"
  shows "template E [Lit a, Sub userId, Lit b, Sub (JNum n), Lit c, Sub ty] =
           Inr (a @ u @ b @ NumberToString E n @ c @ t)"
    and "template E [Lit a, Sub userId, Lit b, Sub (JNum n)] = Inr (a @ u @ b @ NumberToString E n)"
    and "template E [Sub (JStr h), Lit a, Sub userId, Lit b, Sub (JNum n), Lit c, Sub ty] =
           Inr (h @ a @ u @ b @ NumberToString E n @ c @ t)"
    and "template E [Sub (JStr h), Lit a, Sub userId, Lit b, Sub (JNum n)] =
           Inr (h @ a @ u @ b @ NumberToString E n)"
  using assms by simp_all

lemma local_origin:
  "h \<noteq> [] \<Longrightarrow> or_else (JStr h) d = JStr h"
  by (simp add: or_else_def)

lemma destructure_object:
  "b \<noteq> JUndefined \<Longrightarrow> b \<noteq> JNull \<Longrightarrow> destructure src b k = Inr (property b k)"
  by (cases b) (simp_all add: destructure_def)

lemma checkout_request_Call:
  assumes b: "body req \<noteq> JUndefined" "body req \<noteq> JNull"
    and userId: "truthy (property (body req) ''userId'')"
    and details: "truthy (property (body req) ''amount'') \<or> truthy (property (body req) ''items'')"
    and ls: "lineItems E (property (body req) ''type'') (property (body req) ''items'')
               (property (body req) ''amount'') = Inr ls"
    and u: "ToString E (property (body req) ''userId'') = Inr u"
    and t: "ToString E (or_else (property (body req) ''type'') (JStr ''package'')) = Inr t"
  shows "checkout_request E now req = Inr (Call (session_params E now (body req) ls u t))"
  using userId details ls u t
  by (cases "origin req")
     (auto simp: checkout_request_def destructure_object[OF b] Let_def getProp_truthy
        local_origin session_params_def)

lemma ToString_local_origin:
  "\<exists>s. ToString E (or_else (case h of None \<Rightarrow> JUndefined | Some x \<Rightarrow> JStr x) (JStr d)) = Inr s"
  by (cases h) (simp_all add: or_else_def)

lemma local_block:
  assumes "ToString E userId = Inr u" "ToString E ty = Inr t"
  shows "(if c then
            (let localOrigin = or_else (case h of None \<Rightarrow> JUndefined | Some x \<Rightarrow> JStr x) (JStr d) in
               bindE (template E [Sub localOrigin, Lit a, Sub userId, Lit b, Sub (JNum n),
                                  Lit c', Sub ty])
                 (\<lambda>s. bindE (template E [Sub localOrigin, Lit a', Sub userId, Lit b',
                                          Sub (JNum n)]) (\<lambda>c. Inr ())))
          else Inr ()) = Inr ()"
  using assms ToString_local_origin[of E h d] by (auto simp: Let_def)

lemma checkout_request_origin:
  "checkout_request E now (req\<lparr>origin := h\<rparr>) = checkout_request E now req"
proof (cases "body req = JUndefined \<or> body req = JNull")
  case True
  then show ?thesis by (auto simp: checkout_request_def destructure_def)
next
  case False
  then have d: "destructure src (body req) k = Inr (property (body req) k)" for src k
    by (cases "body req") (simp_all add: destructure_def)
  show ?thesis
  proof (cases "ToString E (property (body req) ''userId'')")
    case (Inl e)
    then show ?thesis by (simp add: checkout_request_def d Let_def)
  next
    case u: (Inr u)
    show ?thesis
    proof (cases "ToString E (or_else (property (body req) ''type'') (JStr ''package''))")
      case (Inl e)
      then show ?thesis using u by (simp add: checkout_request_def d Let_def)
    next
      case t: (Inr t)
      show ?thesis
        by (simp add: checkout_request_def d Let_def local_block[OF u t]
            template_userId_type(1,2)[OF u t] del: template.simps)
    qed
  qed
qed

lemma checkout_request_CallD:
  assumes "checkout_request E now req = Inr (Call params)"
  shows "\<exists>ls u t. body req \<noteq> JUndefined \<and> body req \<noteq> JNull
     \<and> truthy (property (body req) ''userId'')
     \<and> (truthy (property (body req) ''amount'') \<or> truthy (property (body req) ''items''))
     \<and> lineItems E (property (body req) ''type'') (property (body req) ''items'')
           (property (body req) ''amount'') = Inr ls
     \<and> ToString E (property (body req) ''userId'') = Inr u
     \<and> ToString E (or_else (property (body req) ''type'') (JStr ''package'')) = Inr t
     \<and> params = session_params E now (body req) ls u t"
proof -
  have b: "body req \<noteq> JUndefined" "body req \<noteq> JNull"
    using assms by (auto simp: checkout_request_def destructure_def)
  note d = destructure_object[OF b]
  have userId: "truthy (property (body req) ''userId'')"
    using assms by (auto simp: checkout_request_def d split: if_splits)
  have details: "truthy (property (body req) ''amount'') \<or> truthy (property (body req) ''items'')"
    using assms userId by (auto simp: checkout_request_def d split: if_splits)
  obtain ls where ls: "lineItems E (property (body req) ''type'') (property (body req) ''items'')
           (property (body req) ''amount'') = Inr ls"
    using assms userId details
    by (cases "lineItems E (property (body req) ''type'') (property (body req) ''items'')
           (property (body req) ''amount'')") (auto simp: checkout_request_def d Let_def)
  obtain u where u: "ToString E (property (body req) ''userId'') = Inr u"
    using assms userId details ls
    by (cases "ToString E (property (body req) ''userId'')")
       (auto simp: checkout_request_def d Let_def)
  obtain t where t: "ToString E (or_else (property (body req) ''type'') (JStr ''package'')) = Inr t"
    using assms userId details ls u
    by (cases "ToString E (or_else (property (body req) ''type'') (JStr ''package''))")
       (auto simp: checkout_request_def d Let_def)
  from checkout_request_Call[OF b userId details ls u t, of now] assms
  have "params = session_params E now (body req) ls u t" by simp
  with b userId details ls u t show ?thesis by blast
qed

lemma calls_try_catch [simp]: "calls (try_catch dflt r) = fst r"
  by (simp add: try_catch_def)

lemma post_create_checkout_session_Call:
  assumes "checkout_request E now req = Inr (Call params)"
  shows "post_create_checkout_session E stripe now req =
     \<lparr>calls = [Create params],
      response = (case sessions_create stripe params of
          Inl error \<Rightarrow> error_response ''Error creating checkout session'' error
        | Inr session \<Rightarrow>
            \<lparr>status = 200,
             json = JObj [(''id'', session_id session),
                          (''timestamp'', JNum (Fin (of_nat now))),
                          (''success'', JBool True)]\<rparr>)\<rparr>"
  using assms
  by (simp add: post_create_checkout_session_def create_checkout_session_try_def
      split: sum.splits)

lemma post_create_checkout_session_calls:
  "calls (post_create_checkout_session E stripe now req) =
     (case checkout_request E now req of Inr (Call params) \<Rightarrow> [Create params] | _ \<Rightarrow> [])"
  by (simp add: post_create_checkout_session_def create_checkout_session_try_def
      split: sum.splits action.splits)

lemma error_response_message:
  "error_response dflt error =
     \<lparr>status = 500,
      json = JObj [(''error'', JStr (if message error = [] then dflt else message error)),
                   (''success'', JBool False)]\<rparr>"
  by (simp add: error_response_def or_else_def)

lemma digits_now: "digits 1700000000000 = ''1700000000000''"
  by simp

lemma sample_number: "NumberToString sample_engine (Fin 1700000000000) = ''1700000000000''"
  by (simp add: sample_engine_def)

lemma sample_checkout_request:
  "checkout_request sample_engine 1700000000000
     (post ''/create-checkout-session'' (JObj [(''userId'', JStr ''u1''), (''amount'', JNum (Fin (241 / 2)))])\<lparr>origin := h\<rparr>) =
   Inr (Call (session_params sample_engine 1700000000000
     (JObj [(''userId'', JStr ''u1''), (''amount'', JNum (Fin (241 / 2)))])
     (JArr [package_line_item (Fin (241 / 2))]) ''u1'' ''package''))"
  by (rule trans[OF checkout_request_Call])
     (simp_all add: post_def own_property_def lineItems_def package_line_item_def
        Math_round_product or_else_def)

lemma five_thousand_pence: "js_div (Fin 5000) (Fin 100) = Fin 50"
  by (simp add: js_div_def fl_50)

lemma post_create_checkout_session_calls_Call:
  assumes "checkout_request E now req = Inr (Call params)"
  shows "calls (post_create_checkout_session E stripe now req) = [Create params]"
  using assms by (simp add: post_create_checkout_session_calls)

lemma property_line_items [simp]:
  "property (session_params E now b ls u t) ''line_items'' = ls"
  by (simp add: session_params_def own_property_def)

lemma sample_quantity: "NumberToString sample_engine (Fin 2) = ''2''"
  by (simp add: sample_engine_def)

lemma sample_one: "NumberToString sample_engine (Fin 1) = ''1''"
  by (simp add: sample_engine_def)

lemma checkout_request_ReplyD:
  assumes "checkout_request E now req = Inr (Reply res)"
  shows "res = \<lparr>status = 400, json = JObj [(''error'', JStr ''Missing userId'')]\<rparr>
       \<or> res = \<lparr>status = 400,
                  json = JObj [(''error'', JStr ''Missing payment details (amount or items)'')]\<rparr>"
proof -
  have b: "body req \<noteq> JUndefined" "body req \<noteq> JNull"
    using assms by (auto simp: checkout_request_def destructure_def)
  note d = destructure_object[OF b]
  show ?thesis
  proof (cases "truthy (property (body req) ''userId'')
      \<and> (truthy (property (body req) ''amount'') \<or> truthy (property (body req) ''items''))")
    case False
    with assms show ?thesis
      by (auto simp: checkout_request_def d split: if_splits)
  next
    case True
    have "checkout_request E now req \<noteq> Inr (Reply res)"
    proof (cases "lineItems E (property (body req) ''type'') (property (body req) ''items'')
           (property (body req) ''amount'')")
      case (Inl e)
      with True show ?thesis by (auto simp: checkout_request_def d Let_def)
    next
      case ls: (Inr ls)
      show ?thesis
      proof (cases "ToString E (property (body req) ''userId'')")
        case (Inl e)
        with True ls show ?thesis by (auto simp: checkout_request_def d Let_def)
      next
        case u: (Inr u)
        show ?thesis
        proof (cases "ToString E (or_else (property (body req) ''type'') (JStr ''package''))")
          case (Inl e)
          with True ls u show ?thesis by (auto simp: checkout_request_def d Let_def)
        next
          case t: (Inr t)
          from True have 1: "truthy (property (body req) ''userId'')"
            and 2: "truthy (property (body req) ''amount'') \<or> truthy (property (body req) ''items'')"
            by simp_all
          show ?thesis
            by (simp add: checkout_request_Call[OF b 1 2 ls u t])
        qed
      qed
    qed
    with assms show ?thesis by simp
  qed
qed

lemma failure_bodies:
  assumes "status (response (app matches E stripe now toISOString req)) \<noteq> 200"
  shows "(\<exists>msg. json (response (app matches E stripe now toISOString req)) =
            JObj [(''error'', JStr msg), (''success'', JBool False)])
       \<or> json (response (app matches E stripe now toISOString req)) =
            JObj [(''error'', JStr ''Missing userId'')]
       \<or> json (response (app matches E stripe now toISOString req)) =
            JObj [(''error'', JStr ''Missing payment details (amount or items)'')]"
proof -
  have create: "(\<exists>msg. json (response (post_create_checkout_session E stripe now req)) =
            JObj [(''error'', JStr msg), (''success'', JBool False)])
       \<or> json (response (post_create_checkout_session E stripe now req)) =
            JObj [(''error'', JStr ''Missing userId'')]
       \<or> json (response (post_create_checkout_session E stripe now req)) =
            JObj [(''error'', JStr ''Missing payment details (amount or items)'')]"
    if "status (response (post_create_checkout_session E stripe now req)) \<noteq> 200"
  proof (cases "checkout_request E now req")
    case (Inl e)
    then show ?thesis
      by (simp add: post_create_checkout_session_def create_checkout_session_try_def
          error_response_message)
  next
    case (Inr act)
    show ?thesis
    proof (cases act)
      case (Reply res)
      with Inr checkout_request_ReplyD[of E now req res] show ?thesis
        by (auto simp: post_create_checkout_session_def create_checkout_session_try_def)
    next
      case (Call params)
      with Inr that show ?thesis
        by (auto simp: post_create_checkout_session_def create_checkout_session_try_def
            error_response_message split: sum.splits)
    qed
  qed
  have verify: "\<exists>msg. json (response (post_verify_payment E stripe req)) =
            JObj [(''error'', JStr msg), (''success'', JBool False)]"
    if "status (response (post_verify_payment E stripe req)) \<noteq> 200"
    using that
    by (auto simp: post_verify_payment_def verify_payment_try_def error_response_message
        bindE_def split: sum.splits if_splits)
  have cancel: "\<exists>msg. json (response (post_handle_cancellation req)) =
            JObj [(''error'', JStr msg), (''success'', JBool False)]"
    if "status (response (post_handle_cancellation req)) \<noteq> 200"
    using that
    by (auto simp: post_handle_cancellation_def handle_cancellation_try_def
        error_response_message bindE_def try_catch_def split: sum.splits if_splits)
  show ?thesis
    using assms create verify cancel
    by (auto simp: app_def Let_def get_health_def get_create_checkout_session_def not_found_def
        split: if_splits)
qed

section \<open>Properties of the handlers\<close>

text \<open>
  C1. Every failing request should get a body with an \<^verbatim>\<open>error\<close> string and
  \<^verbatim>\<open>success: false\<close>. The two validation replies of the checkout handler are the exception
  (\<open>failure_bodies\<close> above shows there is no other): a checkout request without \<^verbatim>\<open>userId\<close>,
  and one with \<^verbatim>\<open>userId\<close> but neither \<^verbatim>\<open>amount\<close> nor \<^verbatim>\<open>items\<close>, are answered with status 400
  and a body that has the \<^verbatim>\<open>error\<close> field only; reading \<^verbatim>\<open>success\<close> from it gives
  \<^verbatim>\<open>undefined\<close>.
\<close>

theorem checkout_validation_reply_lacks_success:
  "app exact E stripe now toISOString (post ''/create-checkout-session'' (JObj [])) =
     \<lparr>calls = [],
      response = \<lparr>status = 400, json = JObj [(''error'', JStr ''Missing userId'')]\<rparr>\<rparr>
   \<and> app exact E stripe now toISOString
       (post ''/create-checkout-session'' (JObj [(''userId'', JStr ''u1'')])) =
     \<lparr>calls = [],
      response = \<lparr>status = 400,
                  json = JObj [(''error'', JStr ''Missing payment details (amount or items)'')]\<rparr>\<rparr>
   \<and> property (JObj [(''error'', JStr ''Missing userId'')]) ''success'' = JUndefined
   \<and> property (JObj [(''error'', JStr ''Missing payment details (amount or items)'')]) ''success''
       = JUndefined"
  by (simp add: app_def exact_def post_def post_create_checkout_session_def
      create_checkout_session_try_def checkout_request_def own_property_def)

text \<open>
  C2. A checkout request without \<^verbatim>\<open>amount\<close> whose \<^verbatim>\<open>items\<close> is the empty array should be
  answered with status 400. An empty array is truthy, so \<^verbatim>\<open>!amount && !items\<close> is false for
  the body \<^verbatim>\<open>{userId: "u1", items: []}\<close>: the handler goes on, builds the package line item
  from \<^verbatim>\<open>Math.round(undefined * 100)\<close>, which is \<^verbatim>\<open>NaN\<close>, and calls the processor with it; the
  status of its response is never 400.
\<close>

theorem empty_items_reach_the_processor:
  "calls (post_create_checkout_session E stripe now
       (post ''/create-checkout-session'' (JObj [(''userId'', JStr ''u1''), (''items'', JArr [])]))) =
     [Create (session_params E now (JObj [(''userId'', JStr ''u1''), (''items'', JArr [])])
        (JArr [JObj
           [(''price_data'', JObj
              [(''currency'', JStr ''gbp''),
               (''product_data'', JObj [(''name'', JStr ''Travel Package Booking'')]),
               (''unit_amount'', JNum NaN)]),
            (''quantity'', JNum (Fin 1))]]) ''u1'' ''package'')]
   \<and> status (response (post_create_checkout_session E stripe now
       (post ''/create-checkout-session'' (JObj [(''userId'', JStr ''u1''), (''items'', JArr [])]))))
     \<noteq> 400"
proof -
  let ?b = "JObj [(''userId'', JStr ''u1''), (''items'', JArr [])]"
  have "checkout_request E now (post ''/create-checkout-session'' ?b) =
     Inr (Call (session_params E now ?b
        (JArr [JObj
           [(''price_data'', JObj
              [(''currency'', JStr ''gbp''),
               (''product_data'', JObj [(''name'', JStr ''Travel Package Booking'')]),
               (''unit_amount'', JNum NaN)]),
            (''quantity'', JNum (Fin 1))]]) ''u1'' ''package''))"
    by (rule trans[OF checkout_request_Call])
       (simp_all add: post_def own_property_def lineItems_def or_else_def js_mul_def)
  from post_create_checkout_session_Call[OF this, of stripe]
  show ?thesis by (simp add: error_response_def split: sum.splits)
qed

text \<open>
  Mathematical rounding of the exact product is not what the activity branch computes.
  The price \<open>0.015\<close> is read as the binary64 value \<open>0.01499999999999999944...\<close>, whose exact
  product with 100 is below \<open>1.5\<close> and rounds to 1 (ties up or ties to even), while the
  handler sends 2: the binary64 product is \<open>1.5\<close>. The price \<open>1.015\<close> as written has the
  product \<open>101.5\<close>, which rounds to 102, while the handler sends 101: the binary64 product
  is \<open>101.49999999999999\<close>.
\<close>

theorem activity_upgrade_rounding_counterexample:
  "fl (3 / 200) = Fin (1080863910568919 / 72057594037927936)
   \<and> fl (203 / 200) = Fin (4571153621781053 / 4503599627370496)
   \<and> calls (post_create_checkout_session sample_engine (stripe_returning unpaid_session)
        1700000000000
        (post ''/create-checkout-session''
           (JObj [(''userId'', JStr ''u1''), (''type'', JStr ''activity_upgrade''),
                  (''items'', JArr
                     [JObj [(''price'', JNum (Fin (1080863910568919 / 72057594037927936)))],
                      JObj [(''price'', JNum (Fin (4571153621781053 / 4503599627370496)))]])]))) =
     [Create (session_params sample_engine 1700000000000
        (JObj [(''userId'', JStr ''u1''), (''type'', JStr ''activity_upgrade''),
               (''items'', JArr
                  [JObj [(''price'', JNum (Fin (1080863910568919 / 72057594037927936)))],
                   JObj [(''price'', JNum (Fin (4571153621781053 / 4503599627370496)))]])])
        (JArr
          [JObj
            [(''price_data'', JObj
               [(''currency'', JStr ''gbp''),
                (''product_data'', JObj [(''name'', JStr ''Activity''),
                                         (''description'', JStr ''Quantity: 1'')]),
                (''unit_amount'', JNum (Fin 2))]),
             (''quantity'', JNum (Fin 1))],
           JObj
            [(''price_data'', JObj
               [(''currency'', JStr ''gbp''),
                (''product_data'', JObj [(''name'', JStr ''Activity''),
                                         (''description'', JStr ''Quantity: 1'')]),
                (''unit_amount'', JNum (Fin 101))]),
             (''quantity'', JNum (Fin 1))]])
        ''u1'' ''activity_upgrade'')]
   \<and> minor_units (1080863910568919 / 72057594037927936) = 1
   \<and> minor_units_even (1080863910568919 / 72057594037927936) = 1
   \<and> minor_units (203 / 200) = 102
   \<and> minor_units_even (203 / 200) = 102"
proof -
  let ?b = "JObj [(''userId'', JStr ''u1''), (''type'', JStr ''activity_upgrade''),
                  (''items'', JArr
                     [JObj [(''price'', JNum (Fin (1080863910568919 / 72057594037927936)))],
                      JObj [(''price'', JNum (Fin (4571153621781053 / 4503599627370496)))]])]"
  have "checkout_request sample_engine 1700000000000 (post ''/create-checkout-session'' ?b) =
     Inr (Call (session_params sample_engine 1700000000000 ?b
        (JArr
          [JObj
            [(''price_data'', JObj
               [(''currency'', JStr ''gbp''),
                (''product_data'', JObj [(''name'', JStr ''Activity''),
                                         (''description'', JStr ''Quantity: 1'')]),
                (''unit_amount'', JNum (Fin 2))]),
             (''quantity'', JNum (Fin 1))],
           JObj
            [(''price_data'', JObj
               [(''currency'', JStr ''gbp''),
                (''product_data'', JObj [(''name'', JStr ''Activity''),
                                         (''description'', JStr ''Quantity: 1'')]),
                (''unit_amount'', JNum (Fin 101))]),
             (''quantity'', JNum (Fin 1))]])
        ''u1'' ''activity_upgrade''))"
    by (rule trans[OF checkout_request_Call])
       (simp_all add: post_def own_property_def lineItems_def lineItem_def or_else_def
          Math_round_product units_0_015 units_1_015 sample_one)
  from post_create_checkout_session_calls_Call[OF this, of "stripe_returning unpaid_session"]
  show ?thesis by (simp add: fl_3_200 fl_203_200 exact_0_015 exact_1_015)
qed

text \<open>
  C3. For a checkout request of type \<^verbatim>\<open>activity_upgrade\<close> with a non-empty sequence of items
  (and a \<^verbatim>\<open>userId\<close> that passes validation and converts to a string), the processor is
  called once, with one line item per item and in the same order: the title or
  \<^verbatim>\<open>Activity\<close>, the quantity or 1, and as unit price the price (or 0) converted in binary64
  arithmetic (\<open>binary64_minor_units\<close>): the exact product with 100 rounded to a nearest
  binary64 value (\<open>fl_nearest\<close> above), and that value rounded to the nearest integer, a
  tie going up. The example after it has the item
  \<^verbatim>\<open>{title: "Safari", quantity: 2, price: 49.99}\<close>, where \<open>49.99\<close> is read as the nearest
  binary64 value (unit price 4999, quantity 2), and an item with the price \<open>0.015\<close> only
  (unit price 2, quantity 1).
\<close>

theorem activity_upgrade_line_items:
  assumes "truthy (own_property fs ''userId'')"
    and "ToString E (own_property fs ''userId'') = Inr u"
    and "own_property fs ''type'' = JStr ''activity_upgrade''"
    and "own_property fs ''items'' = JArr xs"
    and "xs \<noteq> []"
    and "list_all2 has_item xs its"
  shows "\<exists>params.
      calls (post_create_checkout_session E stripe now (req\<lparr>body := JObj fs\<rparr>)) = [Create params]
      \<and> property params ''line_items'' = JArr (map (activity_line_item E) its)"
proof -
  have "lineItems E (own_property fs ''type'') (own_property fs ''items'')
          (own_property fs ''amount'') = Inr (JArr (map (activity_line_item E) its))"
    using assms(3-6) by (simp add: lineItems_def mapE_lineItem)
  with assms(1-4)
  have "checkout_request E now (req\<lparr>body := JObj fs\<rparr>) =
      Inr (Call (session_params E now (JObj fs) (JArr (map (activity_line_item E) its)) u
        ''activity_upgrade''))"
    by (intro trans[OF checkout_request_Call]) (simp_all add: or_else_def)
  from post_create_checkout_session_calls_Call[OF this, of stripe]
  show ?thesis by simp
qed

theorem activity_upgrade_line_items_witness:
  "fl (4999 / 100) = Fin (7035467042882847 / 140737488355328)
   \<and> fl (3 / 200) = Fin (1080863910568919 / 72057594037927936)
   \<and> (\<exists>params.
      calls (post_create_checkout_session sample_engine (stripe_returning unpaid_session)
        1700000000000
        (post ''/create-checkout-session''
           (JObj [(''userId'', JStr ''u1''), (''type'', JStr ''activity_upgrade''),
                  (''items'', JArr
                     [JObj [(''title'', JStr ''Safari''),
                            (''quantity'', JNum (Fin 2)),
                            (''price'', JNum (Fin (7035467042882847 / 140737488355328)))],
                      JObj [(''price'', JNum (Fin (1080863910568919 / 72057594037927936))),
                            (''sku'', JStr ''A7'')]])])))
        = [Create params]
      \<and> property params ''line_items'' =
          JArr
           [JObj
             [(''price_data'', JObj
                [(''currency'', JStr ''gbp''),
                 (''product_data'', JObj [(''name'', JStr ''Safari''),
                                          (''description'', JStr ''Quantity: 2'')]),
                 (''unit_amount'', JNum (Fin 4999))]),
              (''quantity'', JNum (Fin 2))],
            JObj
             [(''price_data'', JObj
                [(''currency'', JStr ''gbp''),
                 (''product_data'', JObj [(''name'', JStr ''Activity''),
                                          (''description'', JStr ''Quantity: 1'')]),
                 (''unit_amount'', JNum (Fin 2))]),
              (''quantity'', JNum (Fin 1))]])"
  using activity_upgrade_line_items
    [where fs = "[(''userId'', JStr ''u1''), (''type'', JStr ''activity_upgrade''),
                  (''items'', JArr
                     [JObj [(''title'', JStr ''Safari''),
                            (''quantity'', JNum (Fin 2)),
                            (''price'', JNum (Fin (7035467042882847 / 140737488355328)))],
                      JObj [(''price'', JNum (Fin (1080863910568919 / 72057594037927936))),
                            (''sku'', JStr ''A7'')]])]"
      and E = sample_engine and u = "''u1''"
      and xs = "[JObj [(''title'', JStr ''Safari''),
                       (''quantity'', JNum (Fin 2)),
                       (''price'', JNum (Fin (7035467042882847 / 140737488355328)))],
                 JObj [(''price'', JNum (Fin (1080863910568919 / 72057594037927936))),
                       (''sku'', JStr ''A7'')]]"
      and its = "[\<lparr>title = Some ''Safari'', quantity = Some 2,
                    price = Some (7035467042882847 / 140737488355328)\<rparr>,
                  \<lparr>title = None, quantity = None,
                    price = Some (1080863910568919 / 72057594037927936)\<rparr>]"
      and stripe = "stripe_returning unpaid_session" and now = 1700000000000
      and req = "post ''/create-checkout-session'' JNull"]
  by (simp add: own_property_def post_def has_item_def is_binary64_examples
      activity_line_item_def item_title_def item_quantity_def item_price_def
      units_49_99 units_0_015 sample_quantity sample_one fl_4999_100 fl_3_200)

text \<open>
  Mathematical rounding of the exact product is not what the package branch computes
  either: the amount \<open>0.015\<close> (as the binary64 value it is read as) gives 2 where the
  exact product rounds to 1, and the amount \<open>1.015\<close> gives 101 where \<open>101.5\<close> rounds to 102.
\<close>

theorem package_rounding_counterexample:
  "fl (3 / 200) = Fin (1080863910568919 / 72057594037927936)
   \<and> fl (203 / 200) = Fin (4571153621781053 / 4503599627370496)
   \<and> calls (post_create_checkout_session sample_engine (stripe_returning unpaid_session)
        1700000000000
        (post ''/create-checkout-session''
           (JObj [(''userId'', JStr ''u1''),
                  (''amount'', JNum (Fin (1080863910568919 / 72057594037927936)))]))) =
     [Create (session_params sample_engine 1700000000000
        (JObj [(''userId'', JStr ''u1''),
               (''amount'', JNum (Fin (1080863910568919 / 72057594037927936)))])
        (JArr
          [JObj
            [(''price_data'', JObj
               [(''currency'', JStr ''gbp''),
                (''product_data'', JObj [(''name'', JStr ''Travel Package Booking'')]),
                (''unit_amount'', JNum (Fin 2))]),
             (''quantity'', JNum (Fin 1))]])
        ''u1'' ''package'')]
   \<and> minor_units (1080863910568919 / 72057594037927936) = 1
   \<and> minor_units_even (1080863910568919 / 72057594037927936) = 1
   \<and> calls (post_create_checkout_session sample_engine (stripe_returning unpaid_session)
        1700000000000
        (post ''/create-checkout-session''
           (JObj [(''userId'', JStr ''u1''),
                  (''amount'', JNum (Fin (4571153621781053 / 4503599627370496)))]))) =
     [Create (session_params sample_engine 1700000000000
        (JObj [(''userId'', JStr ''u1''),
               (''amount'', JNum (Fin (4571153621781053 / 4503599627370496)))])
        (JArr
          [JObj
            [(''price_data'', JObj
               [(''currency'', JStr ''gbp''),
                (''product_data'', JObj [(''name'', JStr ''Travel Package Booking'')]),
                (''unit_amount'', JNum (Fin 101))]),
             (''quantity'', JNum (Fin 1))]])
        ''u1'' ''package'')]
   \<and> minor_units (203 / 200) = 102
   \<and> minor_units_even (203 / 200) = 102"
proof -
  have "checkout_request sample_engine 1700000000000
      (post ''/create-checkout-session''
         (JObj [(''userId'', JStr ''u1''), (''amount'', JNum (Fin a))])) =
     Inr (Call (session_params sample_engine 1700000000000
        (JObj [(''userId'', JStr ''u1''), (''amount'', JNum (Fin a))])
        (JArr
          [JObj
            [(''price_data'', JObj
               [(''currency'', JStr ''gbp''),
                (''product_data'', JObj [(''name'', JStr ''Travel Package Booking'')]),
                (''unit_amount'', JNum (binary64_minor_units (Fin a)))]),
             (''quantity'', JNum (Fin 1))]])
        ''u1'' ''package''))" if "a \<noteq> 0" for a
    using that
    by (intro trans[OF checkout_request_Call])
       (simp_all add: post_def own_property_def lineItems_def or_else_def Math_round_product)
  from post_create_checkout_session_calls_Call
        [OF this[of "1080863910568919 / 72057594037927936"], of "stripe_returning unpaid_session"]
      post_create_checkout_session_calls_Call
        [OF this[of "4571153621781053 / 4503599627370496"], of "stripe_returning unpaid_session"]
  show ?thesis
    by (simp add: fl_3_200 fl_203_200 exact_0_015 exact_1_015 units_0_015 units_1_015)
qed

text \<open>
  C4. For a checkout request that does not take the \<^verbatim>\<open>activity_upgrade\<close> branch and whose
  \<^verbatim>\<open>amount\<close> is present (truthy, as the handler tests it; \<open>a\<close> is its value as a Number),
  with a \<^verbatim>\<open>userId\<close> that passes validation and \<^verbatim>\<open>userId\<close> and \<^verbatim>\<open>type\<close> converting to strings,
  the processor is called once, with exactly one line item: named
  \<^verbatim>\<open>Travel Package Booking\<close>, quantity 1, and as unit price the amount converted in binary64
  arithmetic (\<open>binary64_minor_units\<close>): the exact product with 100 rounded to a nearest
  binary64 value, and that value rounded to the nearest integer, a tie going up. The
  examples after it are \<^verbatim>\<open>amount = 120.5\<close> without a type (unit price 12050, quantity 1)
  and \<^verbatim>\<open>amount = 1.015\<close> (unit price 101).
\<close>

theorem package_line_item_from_amount:
  assumes "truthy (own_property fs ''userId'')"
    and "ToString E (own_property fs ''userId'') = Inr u"
    and "ToString E (or_else (own_property fs ''type'') (JStr ''package'')) = Inr t"
    and "truthy (own_property fs ''amount'')"
    and "ToNumber E (own_property fs ''amount'') = Inr a"
    and "\<not> (own_property fs ''type'' = JStr ''activity_upgrade''
            \<and> Array_isArray (own_property fs ''items'')
            \<and> 0 < length (elements (own_property fs ''items'')))"
  shows "\<exists>params.
      calls (post_create_checkout_session E stripe now (req\<lparr>body := JObj fs\<rparr>)) = [Create params]
      \<and> property params ''line_items'' =
          JArr [JObj
            [(''price_data'', JObj
               [(''currency'', JStr ''gbp''),
                (''product_data'', JObj [(''name'', JStr ''Travel Package Booking'')]),
                (''unit_amount'', JNum (binary64_minor_units a))]),
             (''quantity'', JNum (Fin 1))]]"
proof -
  let ?ls = "JArr [JObj
            [(''price_data'', JObj
               [(''currency'', JStr ''gbp''),
                (''product_data'', JObj [(''name'', JStr ''Travel Package Booking'')]),
                (''unit_amount'', JNum (binary64_minor_units a))]),
             (''quantity'', JNum (Fin 1))]]"
  have "lineItems E (own_property fs ''type'') (own_property fs ''items'')
          (own_property fs ''amount'') = Inr ?ls"
    using assms(5,6) by (simp add: lineItems_def Math_round_product)
  with assms(1-4)
  have "checkout_request E now (req\<lparr>body := JObj fs\<rparr>) =
      Inr (Call (session_params E now (JObj fs) ?ls u t))"
    by (intro trans[OF checkout_request_Call]) simp_all
  from post_create_checkout_session_calls_Call[OF this, of stripe]
  show ?thesis by simp
qed

theorem package_line_item_from_amount_witness:
  "(\<exists>params.
      calls (post_create_checkout_session sample_engine (stripe_returning unpaid_session)
        1700000000000
        (post ''/create-checkout-session''
           (JObj [(''userId'', JStr ''u1''), (''amount'', JNum (Fin (241 / 2)))]))) = [Create params]
      \<and> property params ''line_items'' =
          JArr [JObj
            [(''price_data'', JObj
               [(''currency'', JStr ''gbp''),
                (''product_data'', JObj [(''name'', JStr ''Travel Package Booking'')]),
                (''unit_amount'', JNum (Fin 12050))]),
             (''quantity'', JNum (Fin 1))]])
   \<and> fl (203 / 200) = Fin (4571153621781053 / 4503599627370496)
   \<and> (\<exists>params.
      calls (post_create_checkout_session sample_engine (stripe_returning unpaid_session)
        1700000000000
        (post ''/create-checkout-session''
           (JObj [(''userId'', JStr ''u1''), (''type'', JStr ''package''),
                  (''amount'', JNum (Fin (4571153621781053 / 4503599627370496)))])))
        = [Create params]
      \<and> property params ''line_items'' =
          JArr [JObj
            [(''price_data'', JObj
               [(''currency'', JStr ''gbp''),
                (''product_data'', JObj [(''name'', JStr ''Travel Package Booking'')]),
                (''unit_amount'', JNum (Fin 101))]),
             (''quantity'', JNum (Fin 1))]])"
  using package_line_item_from_amount
    [where fs = "[(''userId'', JStr ''u1''), (''amount'', JNum (Fin (241 / 2)))]"
      and E = sample_engine and u = "''u1''" and t = "''package''" and a = "Fin (241 / 2)"
      and stripe = "stripe_returning unpaid_session" and now = 1700000000000
      and req = "post ''/create-checkout-session'' JNull"]
    package_line_item_from_amount
    [where fs = "[(''userId'', JStr ''u1''), (''type'', JStr ''package''),
                  (''amount'', JNum (Fin (4571153621781053 / 4503599627370496)))]"
      and E = sample_engine and u = "''u1''" and t = "''package''"
      and a = "Fin (4571153621781053 / 4503599627370496)"
      and stripe = "stripe_returning unpaid_session" and now = 1700000000000
      and req = "post ''/create-checkout-session'' JNull"]
  by (simp add: own_property_def or_else_def post_def units_120_5 units_1_015 fl_203_200)

text \<open>
  C5. For a verification request whose \<^verbatim>\<open>sessionId\<close> is present and whose retrieval
  succeeds with the session \<open>s\<close>: if the payment status is \<^verbatim>\<open>paid\<close> (and \<^verbatim>\<open>amount_total\<close>
  converts to the Number \<open>a\<close>, as every number and \<^verbatim>\<open>null\<close> does), the response is
  \<^verbatim>\<open>{paid: true, amount: amount_total / 100, customerId, metadata, success: true}\<close>; otherwise
  it is \<^verbatim>\<open>{paid: false, status, metadata, success: true}\<close>. The example after it: \<^verbatim>\<open>paid\<close> with
  \<^verbatim>\<open>amount_total\<close> 5000 gives \<^verbatim>\<open>amount: 50\<close>.
\<close>

theorem verification_reports_payment_status:
  assumes "truthy (own_property fs ''sessionId'')"
    and "sessions_retrieve stripe (own_property fs ''sessionId'') = Inr s"
  shows "(payment_status s = JStr ''paid'' \<and> ToNumber E (amount_total s) = Inr a \<longrightarrow>
      post_verify_payment E stripe (req\<lparr>body := JObj fs\<rparr>) =
        \<lparr>calls = [Retrieve (own_property fs ''sessionId'')],
         response = \<lparr>status = 200,
                     json = JObj [(''paid'', JBool True),
                                  (''amount'', JNum (js_div a (Fin 100))),
                                  (''customerId'', customer s),
                                  (''metadata'', metadata s),
                                  (''success'', JBool True)]\<rparr>\<rparr>)
    \<and> (payment_status s \<noteq> JStr ''paid'' \<longrightarrow>
      post_verify_payment E stripe (req\<lparr>body := JObj fs\<rparr>) =
        \<lparr>calls = [Retrieve (own_property fs ''sessionId'')],
         response = \<lparr>status = 200,
                     json = JObj [(''paid'', JBool False),
                                  (''status'', payment_status s),
                                  (''metadata'', metadata s),
                                  (''success'', JBool True)]\<rparr>\<rparr>)"
  using assms by (simp add: post_verify_payment_def verify_payment_try_def)

theorem verification_reports_payment_status_witness:
  "truthy (own_property [(''sessionId'', JStr ''cs_test_a1'')] ''sessionId'')
   \<and> payment_status paid_session = JStr ''paid''
   \<and> amount_total paid_session = JNum (Fin 5000)
   \<and> post_verify_payment sample_engine (stripe_returning paid_session)
        (post ''/verify-payment'' (JObj [(''sessionId'', JStr ''cs_test_a1'')])) =
     \<lparr>calls = [Retrieve (JStr ''cs_test_a1'')],
      response = \<lparr>status = 200,
                  json = JObj [(''paid'', JBool True),
                               (''amount'', JNum (Fin 50)),
                               (''customerId'', JStr ''cus_9''),
                               (''metadata'', JObj [(''userId'', JStr ''u1'')]),
                               (''success'', JBool True)]\<rparr>\<rparr>
   \<and> payment_status unpaid_session \<noteq> JStr ''paid''
   \<and> post_verify_payment sample_engine (stripe_returning unpaid_session)
        (post ''/verify-payment'' (JObj [(''sessionId'', JStr ''cs_test_a1'')])) =
     \<lparr>calls = [Retrieve (JStr ''cs_test_a1'')],
      response = \<lparr>status = 200,
                  json = JObj [(''paid'', JBool False),
                               (''status'', JStr ''unpaid''),
                               (''metadata'', JObj [(''userId'', JStr ''u1'')]),
                               (''success'', JBool True)]\<rparr>\<rparr>"
proof -
  let ?fs = "[(''sessionId'', JStr ''cs_test_a1'')]"
  have t: "truthy (own_property ?fs ''sessionId'')" by (simp add: own_property_def)
  have p: "sessions_retrieve (stripe_returning paid_session) (own_property ?fs ''sessionId'')
      = Inr paid_session"
    and u: "sessions_retrieve (stripe_returning unpaid_session) (own_property ?fs ''sessionId'')
      = Inr unpaid_session"
    by (simp_all add: stripe_returning_def)
  from t verification_reports_payment_status[OF t p, of sample_engine "Fin 5000"
      "post ''/verify-payment'' JNull"]
    verification_reports_payment_status[OF t u, of sample_engine "Fin 5000"
      "post ''/verify-payment'' JNull"]
  show ?thesis
    by (simp add: paid_session_def unpaid_session_def post_def own_property_def
        five_thousand_pence)
qed

text \<open>
  C6. A request body without its identifier (\<^verbatim>\<open>userId\<close> for the checkout and the
  cancellation, \<^verbatim>\<open>sessionId\<close> for the verification) is answered with status 400 and a body
  with an \<^verbatim>\<open>error\<close> field, whatever the other fields are, and the processor is not called.
\<close>

theorem missing_identifier_rejected:
  "(map_of fs ''userId'' = None \<longrightarrow>
      post_create_checkout_session E stripe now (req\<lparr>body := JObj fs\<rparr>) =
        \<lparr>calls = [],
         response = \<lparr>status = 400, json = JObj [(''error'', JStr ''Missing userId'')]\<rparr>\<rparr>
      \<and> post_handle_cancellation (req\<lparr>body := JObj fs\<rparr>) =
        \<lparr>calls = [],
         response = \<lparr>status = 400,
                     json = JObj [(''error'', JStr ''User ID is required''),
                                  (''success'', JBool False)]\<rparr>\<rparr>)
   \<and> (map_of fs ''sessionId'' = None \<longrightarrow>
      post_verify_payment E stripe (req\<lparr>body := JObj fs\<rparr>) =
        \<lparr>calls = [],
         response = \<lparr>status = 400,
                     json = JObj [(''error'', JStr ''Session ID is required''),
                                  (''success'', JBool False)]\<rparr>\<rparr>)"
  by (simp add: post_create_checkout_session_def create_checkout_session_try_def
      checkout_no_userId own_property_absent post_handle_cancellation_def
      handle_cancellation_try_def post_verify_payment_def verify_payment_try_def)

theorem missing_identifier_rejected_witness:
  "post_create_checkout_session sample_engine (stripe_returning paid_session) 1700000000000
       (post ''/create-checkout-session'' (JObj [(''amount'', JNum (Fin 25)), (''type'', JStr ''package'')])) =
     \<lparr>calls = [],
      response = \<lparr>status = 400, json = JObj [(''error'', JStr ''Missing userId'')]\<rparr>\<rparr>
   \<and> post_handle_cancellation (post ''/handle-cancellation'' (JObj [(''timestamp'', JNum (Fin 1700000000000))])) =
     \<lparr>calls = [],
      response = \<lparr>status = 400,
                  json = JObj [(''error'', JStr ''User ID is required''),
                               (''success'', JBool False)]\<rparr>\<rparr>
   \<and> post_verify_payment sample_engine (stripe_returning paid_session)
       (post ''/verify-payment'' (JObj [(''session'', JStr ''cs_test_a1'')])) =
     \<lparr>calls = [],
      response = \<lparr>status = 400,
                  json = JObj [(''error'', JStr ''Session ID is required''),
                               (''success'', JBool False)]\<rparr>\<rparr>"
  using missing_identifier_rejected [of "[(''amount'', JNum (Fin 25)), (''type'', JStr ''package'')]"
      sample_engine "stripe_returning paid_session" 1700000000000 "post ''/create-checkout-session'' JNull"]
    missing_identifier_rejected [of "[(''timestamp'', JNum (Fin 1700000000000))]"
      sample_engine "stripe_returning paid_session" 0 "post ''/handle-cancellation'' JNull"]
    missing_identifier_rejected [of "[(''session'', JStr ''cs_test_a1'')]"
      sample_engine "stripe_returning paid_session" 0 "post ''/verify-payment'' JNull"]
  by (simp add: post_def)

text \<open>
  C7. When the processor throws during session creation or session retrieval, the
  response is status 500 with exactly an \<^verbatim>\<open>error\<close> string (the message of the error, or the
  handler's default when that is empty) and \<^verbatim>\<open>success: false\<close>.
\<close>

theorem processor_failure_is_500:
  "(calls (post_create_checkout_session E stripe now req) = [Create params]
      \<and> sessions_create stripe params = Inl error \<longrightarrow>
    response (post_create_checkout_session E stripe now req) =
      \<lparr>status = 500,
       json = JObj [(''error'', JStr (if message error = [] then ''Error creating checkout session''
                                     else message error)),
                    (''success'', JBool False)]\<rparr>)
   \<and> (calls (post_verify_payment E stripe req) = [Retrieve sid]
      \<and> sessions_retrieve stripe sid = Inl error \<longrightarrow>
    response (post_verify_payment E stripe req) =
      \<lparr>status = 500,
       json = JObj [(''error'', JStr (if message error = [] then ''Error verifying payment''
                                     else message error)),
                    (''success'', JBool False)]\<rparr>)"
proof (intro conjI impI)
  assume a: "calls (post_create_checkout_session E stripe now req) = [Create params]
      \<and> sessions_create stripe params = Inl error"
  then have "checkout_request E now req = Inr (Call params)"
    by (auto simp: post_create_checkout_session_calls split: sum.splits action.splits)
  from post_create_checkout_session_Call[OF this, of stripe] a
  show "response (post_create_checkout_session E stripe now req) =
      \<lparr>status = 500,
       json = JObj [(''error'', JStr (if message error = [] then ''Error creating checkout session''
                                     else message error)),
                    (''success'', JBool False)]\<rparr>"
    by (simp add: error_response_message)
next
  assume a: "calls (post_verify_payment E stripe req) = [Retrieve sid]
      \<and> sessions_retrieve stripe sid = Inl error"
  then show "response (post_verify_payment E stripe req) =
      \<lparr>status = 500,
       json = JObj [(''error'', JStr (if message error = [] then ''Error verifying payment''
                                     else message error)),
                    (''success'', JBool False)]\<rparr>"
    by (auto simp: post_verify_payment_def verify_payment_try_def error_response_message
        split: sum.splits if_splits)
qed

theorem processor_failure_is_500_witness:
  "calls (post_create_checkout_session sample_engine (stripe_rejecting ''No such checkout.session: cs_test_a1'')
        1700000000000
        (post ''/create-checkout-session''
           (JObj [(''userId'', JStr ''u1''), (''amount'', JNum (Fin (241 / 2)))]))) =
     [Create (session_params sample_engine 1700000000000
          (JObj [(''userId'', JStr ''u1''), (''amount'', JNum (Fin (241 / 2)))])
          (JArr [package_line_item (Fin (241 / 2))]) ''u1'' ''package'')]
   \<and> response (post_create_checkout_session sample_engine
        (stripe_rejecting ''No such checkout.session: cs_test_a1'') 1700000000000
        (post ''/create-checkout-session''
           (JObj [(''userId'', JStr ''u1''), (''amount'', JNum (Fin (241 / 2)))]))) =
     \<lparr>status = 500,
      json = JObj [(''error'', JStr ''No such checkout.session: cs_test_a1''),
                   (''success'', JBool False)]\<rparr>
   \<and> calls (post_verify_payment sample_engine (stripe_rejecting [])
        (post ''/verify-payment'' (JObj [(''sessionId'', JStr ''cs_test_a1'')]))) =
     [Retrieve (JStr ''cs_test_a1'')]
   \<and> response (post_verify_payment sample_engine (stripe_rejecting [])
        (post ''/verify-payment'' (JObj [(''sessionId'', JStr ''cs_test_a1'')]))) =
     \<lparr>status = 500,
      json = JObj [(''error'', JStr ''Error verifying payment''), (''success'', JBool False)]\<rparr>"
proof -
  let ?R = "post ''/create-checkout-session''
           (JObj [(''userId'', JStr ''u1''), (''amount'', JNum (Fin (241 / 2)))])"
  let ?P = "session_params sample_engine 1700000000000
          (JObj [(''userId'', JStr ''u1''), (''amount'', JNum (Fin (241 / 2)))])
          (JArr [package_line_item (Fin (241 / 2))]) ''u1'' ''package''"
  let ?V = "post ''/verify-payment'' (JObj [(''sessionId'', JStr ''cs_test_a1'')])"
  have c: "calls (post_create_checkout_session sample_engine
      (stripe_rejecting ''No such checkout.session: cs_test_a1'') 1700000000000 ?R) = [Create ?P]"
    using sample_checkout_request[of "origin ?R"]
    by (simp add: post_create_checkout_session_calls)
  have v: "calls (post_verify_payment sample_engine (stripe_rejecting []) ?V)
      = [Retrieve (JStr ''cs_test_a1'')]"
    by (simp add: post_verify_payment_def verify_payment_try_def post_def own_property_def
        stripe_rejecting_def)
  from c v
    processor_failure_is_500[where E = sample_engine
      and stripe = "stripe_rejecting ''No such checkout.session: cs_test_a1''"
      and now = 1700000000000 and req = ?R and params = ?P
      and error = "Error ''No such checkout.session: cs_test_a1''"]
    processor_failure_is_500[where E = sample_engine and stripe = "stripe_rejecting []"
      and req = ?V and sid = "JStr ''cs_test_a1''" and error = "Error []"]
  show ?thesis by (simp add: stripe_rejecting_def)
qed

text \<open>
  C8. The outcome of a checkout request, and with it the redirect URLs passed to the
  processor, does not depend on the Origin header: the block for local origins assigns to
  constants of its own. Every call made carries a success and a cancel URL on the
  production domain.
\<close>

theorem redirect_urls_ignore_origin:
  "post_create_checkout_session E stripe now (req\<lparr>origin := h\<rparr>) =
     post_create_checkout_session E stripe now (req\<lparr>origin := h'\<rparr>)
   \<and> (\<forall>params. Create params \<in> set (calls (post_create_checkout_session E stripe now req)) \<longrightarrow>
         (\<exists>s c. property params ''success_url'' =
                   JStr (''https://kenyaonabudgetsafaris.co.uk/payment-successa.html?'' @ s)
              \<and> property params ''cancel_url'' =
                   JStr (''https://kenyaonabudgetsafaris.co.uk/payment-cancelled.html?'' @ c)))"
proof (intro conjI allI impI)
  have "create_checkout_session_try E stripe now (req\<lparr>origin := x\<rparr>) =
        create_checkout_session_try E stripe now req" for x
    by (simp add: create_checkout_session_try_def checkout_request_origin)
  then show "post_create_checkout_session E stripe now (req\<lparr>origin := h\<rparr>) =
     post_create_checkout_session E stripe now (req\<lparr>origin := h'\<rparr>)"
    by (simp add: post_create_checkout_session_def)
next
  fix params
  assume "Create params \<in> set (calls (post_create_checkout_session E stripe now req))"
  then have "checkout_request E now req = Inr (Call params)"
    by (auto simp: post_create_checkout_session_calls split: sum.splits action.splits)
  from checkout_request_CallD[OF this] obtain ls u t
    where "params = session_params E now (body req) ls u t" by blast
  then show "\<exists>s c. property params ''success_url'' =
                   JStr (''https://kenyaonabudgetsafaris.co.uk/payment-successa.html?'' @ s)
              \<and> property params ''cancel_url'' =
                   JStr (''https://kenyaonabudgetsafaris.co.uk/payment-cancelled.html?'' @ c)"
    by (simp add: session_params_def own_property_def)
qed

theorem redirect_urls_ignore_origin_witness:
  "post_create_checkout_session sample_engine (stripe_returning unpaid_session) 1700000000000
      (post ''/create-checkout-session''
         (JObj [(''userId'', JStr ''u1''), (''amount'', JNum (Fin (241 / 2)))])
       \<lparr>origin := Some ''http://localhost:5500''\<rparr>) =
   post_create_checkout_session sample_engine (stripe_returning unpaid_session) 1700000000000
      (post ''/create-checkout-session''
         (JObj [(''userId'', JStr ''u1''), (''amount'', JNum (Fin (241 / 2)))])
       \<lparr>origin := Some ''https://kenyaonabudgetsafaris.co.uk''\<rparr>)
   \<and> Create (session_params sample_engine 1700000000000
          (JObj [(''userId'', JStr ''u1''), (''amount'', JNum (Fin (241 / 2)))])
          (JArr [package_line_item (Fin (241 / 2))]) ''u1'' ''package'')
       \<in> set (calls (post_create_checkout_session sample_engine (stripe_returning unpaid_session)
            1700000000000
            (post ''/create-checkout-session''
               (JObj [(''userId'', JStr ''u1''), (''amount'', JNum (Fin (241 / 2)))])
             \<lparr>origin := Some ''http://localhost:5500''\<rparr>)))
   \<and> property (session_params sample_engine 1700000000000
          (JObj [(''userId'', JStr ''u1''), (''amount'', JNum (Fin (241 / 2)))])
          (JArr [package_line_item (Fin (241 / 2))]) ''u1'' ''package'') ''success_url'' =
       JStr ''https://kenyaonabudgetsafaris.co.uk/payment-successa.html?session_id={CHECKOUT_SESSION_ID}&userId=u1&timestamp=1700000000000&type=package''
   \<and> property (session_params sample_engine 1700000000000
          (JObj [(''userId'', JStr ''u1''), (''amount'', JNum (Fin (241 / 2)))])
          (JArr [package_line_item (Fin (241 / 2))]) ''u1'' ''package'') ''cancel_url'' =
       JStr ''https://kenyaonabudgetsafaris.co.uk/payment-cancelled.html?userId=u1&timestamp=1700000000000''"
  using redirect_urls_ignore_origin
    [where E = sample_engine and stripe = "stripe_returning unpaid_session"
      and now = 1700000000000
      and req = "post ''/create-checkout-session''
         (JObj [(''userId'', JStr ''u1''), (''amount'', JNum (Fin (241 / 2)))])
       \<lparr>origin := Some ''http://localhost:5500''\<rparr>"
      and h = "Some ''http://localhost:5500''"
      and h' = "Some ''https://kenyaonabudgetsafaris.co.uk''"]
  by (simp add: post_create_checkout_session_calls sample_checkout_request session_params_def
      own_property_def sample_number)

text \<open>
  C9. A cancellation whose \<^verbatim>\<open>userId\<close> is present (truthy, as the handler tests it) is
  answered with status 200 and exactly \<^verbatim>\<open>success: true\<close>, the message, the request's \<^verbatim>\<open>userId\<close>
  and its \<^verbatim>\<open>timestamp\<close> (\<^verbatim>\<open>undefined\<close> when the request has none); the processor is not
  called, and there is no state to update.
\<close>

theorem cancellation_acknowledged:
  "truthy (own_property fs ''userId'') \<Longrightarrow>
   post_handle_cancellation (req\<lparr>body := JObj fs\<rparr>) =
     \<lparr>calls = [],
      response = \<lparr>status = 200,
                  json = JObj [(''success'', JBool True),
                               (''message'', JStr ''Cancellation processed''),
                               (''userId'', own_property fs ''userId''),
                               (''timestamp'', own_property fs ''timestamp'')]\<rparr>\<rparr>"
  by (simp add: post_handle_cancellation_def handle_cancellation_try_def)

theorem cancellation_acknowledged_witness:
  "truthy (own_property [(''userId'', JStr ''u1'')] ''userId'')
   \<and> post_handle_cancellation (post ''/handle-cancellation'' (JObj [(''userId'', JStr ''u1'')])) =
     \<lparr>calls = [],
      response = \<lparr>status = 200,
                  json = JObj [(''success'', JBool True),
                               (''message'', JStr ''Cancellation processed''),
                               (''userId'', JStr ''u1''),
                               (''timestamp'', JUndefined)]\<rparr>\<rparr>"
  using cancellation_acknowledged [of "[(''userId'', JStr ''u1'')]" "post ''/handle-cancellation'' JNull"]
  by (simp add: post_def own_property_def)

text \<open>
  C10. A checkout request with \<^verbatim>\<open>userId\<close> present (and \<^verbatim>\<open>userId\<close> and \<^verbatim>\<open>type\<close> converting to
  strings), a non-empty \<^verbatim>\<open>items\<close> array, no \<^verbatim>\<open>amount\<close> and a type other than
  \<^verbatim>\<open>activity_upgrade\<close> passes validation: the status is not 400, and the processor is
  called with a single line item whose unit price is \<^verbatim>\<open>Math.round(undefined * 100)\<close>, that
  is \<^verbatim>\<open>NaN\<close>, which is not an integer.
\<close>

theorem items_without_amount_give_NaN:
  assumes "truthy (own_property fs ''userId'')"
    and "ToString E (own_property fs ''userId'') = Inr u"
    and "ToString E (or_else (own_property fs ''type'') (JStr ''package'')) = Inr t"
    and "own_property fs ''items'' = JArr xs" and "xs \<noteq> []"
    and "map_of fs ''amount'' = None"
    and "own_property fs ''type'' \<noteq> JStr ''activity_upgrade''"
  shows "\<exists>params.
      calls (post_create_checkout_session E stripe now (req\<lparr>body := JObj fs\<rparr>)) = [Create params]
      \<and> status (response (post_create_checkout_session E stripe now (req\<lparr>body := JObj fs\<rparr>))) \<noteq> 400
      \<and> property params ''line_items'' =
          JArr [JObj
            [(''price_data'', JObj
               [(''currency'', JStr ''gbp''),
                (''product_data'', JObj [(''name'', JStr ''Travel Package Booking'')]),
                (''unit_amount'', JNum NaN)]),
             (''quantity'', JNum (Fin 1))]]
      \<and> \<not> isInteger (JNum NaN)"
proof -
  let ?ls = "JArr [JObj
            [(''price_data'', JObj
               [(''currency'', JStr ''gbp''),
                (''product_data'', JObj [(''name'', JStr ''Travel Package Booking'')]),
                (''unit_amount'', JNum NaN)]),
             (''quantity'', JNum (Fin 1))]]"
  have "lineItems E (own_property fs ''type'') (own_property fs ''items'')
          (own_property fs ''amount'') = Inr ?ls"
    using assms(6,7) by (simp add: lineItems_def own_property_def js_mul_def)
  with assms(1-4)
  have "checkout_request E now (req\<lparr>body := JObj fs\<rparr>) =
      Inr (Call (session_params E now (JObj fs) ?ls u t))"
    by (intro trans[OF checkout_request_Call]) simp_all
  from post_create_checkout_session_Call[OF this, of stripe]
  show ?thesis by (simp add: error_response_def split: sum.splits)
qed

theorem items_without_amount_give_NaN_witness:
  "\<exists>params.
      calls (post_create_checkout_session sample_engine (stripe_returning unpaid_session)
        1700000000000
        (post ''/create-checkout-session''
           (JObj [(''userId'', JStr ''u1''),
                  (''items'', JArr [JObj [(''title'', JStr ''Safari''),
                                          (''quantity'', JNum (Fin 2)),
                                          (''price'', JNum (Fin 40))]])]))) = [Create params]
      \<and> status (response (post_create_checkout_session sample_engine
        (stripe_returning unpaid_session) 1700000000000
        (post ''/create-checkout-session''
           (JObj [(''userId'', JStr ''u1''),
                  (''items'', JArr [JObj [(''title'', JStr ''Safari''),
                                          (''quantity'', JNum (Fin 2)),
                                          (''price'', JNum (Fin 40))]])])))) = 200
      \<and> property params ''line_items'' =
          JArr [JObj
            [(''price_data'', JObj
               [(''currency'', JStr ''gbp''),
                (''product_data'', JObj [(''name'', JStr ''Travel Package Booking'')]),
                (''unit_amount'', JNum NaN)]),
             (''quantity'', JNum (Fin 1))]]"
proof -
  let ?fs = "[(''userId'', JStr ''u1''),
                  (''items'', JArr [JObj [(''title'', JStr ''Safari''),
                                          (''quantity'', JNum (Fin 2)),
                                          (''price'', JNum (Fin 40))]])]"
  from items_without_amount_give_NaN
    [where fs = ?fs and E = sample_engine and u = "''u1''" and t = "''package''"
      and xs = "[JObj [(''title'', JStr ''Safari''), (''quantity'', JNum (Fin 2)),
                       (''price'', JNum (Fin 40))]]"
      and stripe = "stripe_returning unpaid_session" and now = 1700000000000
      and req = "post ''/create-checkout-session'' JNull"]
  obtain params where
    c: "calls (post_create_checkout_session sample_engine (stripe_returning unpaid_session)
          1700000000000 (post ''/create-checkout-session'' (JObj ?fs))) = [Create params]"
    and l: "property params ''line_items'' =
          JArr [JObj
            [(''price_data'', JObj
               [(''currency'', JStr ''gbp''),
                (''product_data'', JObj [(''name'', JStr ''Travel Package Booking'')]),
                (''unit_amount'', JNum NaN)]),
             (''quantity'', JNum (Fin 1))]]"
    by (auto simp: own_property_def or_else_def post_def)
  from c have "checkout_request sample_engine 1700000000000
      (post ''/create-checkout-session'' (JObj ?fs)) = Inr (Call params)"
    by (auto simp: post_create_checkout_session_calls split: sum.splits action.splits)
  from post_create_checkout_session_Call[OF this, of "stripe_returning unpaid_session"]
  have "status (response (post_create_checkout_session sample_engine
        (stripe_returning unpaid_session) 1700000000000
        (post ''/create-checkout-session'' (JObj ?fs)))) = 200"
    by (simp add: stripe_returning_def)
  with c l show ?thesis by blast
qed

end
